theory Spec2Isabelle
  imports Main
begin

section \<open>Values, exceptions and the outside world\<close>

text \<open>
  The script \<^verbatim>\<open>anki_flashcard_adder.py\<close> talks to two HTTP services and to the
  console. Everything it receives is a value parsed from JSON, so the Python
  objects it handles are modelled by one datatype. A Python \<^verbatim>\<open>str\<close> is a
  \<^typ>\<open>string\<close>; a \<^verbatim>\<open>dict\<close> is an association list with distinct keys in
  insertion order; JSON \<^verbatim>\<open>null\<close> and Python \<^verbatim>\<open>None\<close> are the same value
  \<open>JNull\<close>, as \<^verbatim>\<open>json.loads\<close> makes them. Numbers are integers: a float
  behaves as an integer does under every operation the script applies.
\<close>

datatype json =
    JNull
  | JBool bool
  | JNum int
  | JStr string
  | JArr "json list"
  | JObj "(string \<times> json) list"

text \<open>
  Exceptions of class \<^verbatim>\<open>Exception\<close>. \<open>HTTPError code reason body\<close> carries
  the outcome of \<^verbatim>\<open>http_e.read().decode()\<close>: \<open>None\<close> when the bytes of the
  body are not UTF-8, in which case that call raises \<open>UnicodeDecodeError\<close>.
  \<open>Exception v\<close> is the generic \<^verbatim>\<open>Exception(v)\<close> raised in \<^verbatim>\<open>anki_request\<close>.
  \<open>UnicodeEncodeError\<close> is what \<^verbatim>\<open>print\<close> raises when the encoding of the
  console has no bytes for a character of the line.
\<close>

datatype py_exn =
    HTTPError nat string "string option"
  | URLError string
  | JSONDecodeError
  | UnicodeDecodeError
  | UnicodeEncodeError
  | AttributeError
  | TypeError
  | KeyError
  | IndexError
  | EOFError
  | UnboundLocalError
  | Exception json
  | OtherError string

text \<open>
  What \<^verbatim>\<open>urllib.request.urlopen\<close> does: it returns a response with a status, a
  reason and a body, or it raises. The body is given as the text that the reader of
  the response decodes from its bytes: \<^verbatim>\<open>response.read().decode()\<close>, which is
  UTF-8, in \<^verbatim>\<open>generate_flashcard_content\<close>, and \<^verbatim>\<open>json.load(response)\<close>, which
  detects UTF-8, UTF-16 and UTF-32, in \<^verbatim>\<open>anki_request\<close>. It is \<open>None\<close> when that
  decoding raises \<open>UnicodeDecodeError\<close>.
\<close>

datatype http_outcome =
    Response nat string "string option"
  | Raises py_exn

text \<open>
  The pieces of a printed line: literal text and \<^verbatim>\<open>str\<close> values, and the
  \<^verbatim>\<open>str()\<close> of a number, of a parsed value and of an exception, which are kept
  unrendered.
\<close>

datatype frag = Txt string | Num nat | Val json | Err py_exn

datatype event =
    Print "frag list"
  | Prompt "frag list"
  | HttpPost string "(string \<times> string) list" json

record world =
  stdin :: "string list"
  out :: "event list"

record env =
  environ :: "string \<Rightarrow> string option"
  json_loads :: "string \<Rightarrow> json option"
  urlopen :: "string \<Rightarrow> json \<Rightarrow> http_outcome"

text \<open>
  \<open>environ\<close> is \<^verbatim>\<open>os.environ.get\<close>; \<open>json_loads\<close> is \<^verbatim>\<open>json.loads\<close>, with
  \<open>None\<close> for \<open>JSONDecodeError\<close>; \<open>urlopen\<close> answers a request, given by
  its URL and the value that \<^verbatim>\<open>json.dumps\<close> serialises into its body.
\<close>

text \<open>
  \<^verbatim>\<open>print\<close> on a console that accepts the line. A console can refuse a line, and
  \<^verbatim>\<open>print\<close> then raises: that is \<open>print_on\<close> below, with the two helpers of
  the script on such a console.
\<close>

definition py_print :: "frag list \<Rightarrow> world \<Rightarrow> world" where
  "py_print fs w = w\<lparr>out := out w @ [Print fs]\<rparr>"

definition py_input :: "frag list \<Rightarrow> world \<Rightarrow> (py_exn + string) \<times> world" where
  "py_input p w =
     (case stdin w of
        [] \<Rightarrow> (Inl EOFError, w\<lparr>out := out w @ [Prompt p]\<rparr>)
      | l # ls \<Rightarrow> (Inr l, w\<lparr>stdin := ls, out := out w @ [Prompt p]\<rparr>))"

definition exn_bind :: "py_exn + 'a \<Rightarrow> ('a \<Rightarrow> py_exn + 'b) \<Rightarrow> py_exn + 'b" where
  "exn_bind m f = (case m of Inl e \<Rightarrow> Inl e | Inr x \<Rightarrow> f x)"

subsection \<open>Python operations on parsed values\<close>

fun truthy :: "json \<Rightarrow> bool" where
  "truthy JNull = False"
| "truthy (JBool b) = b"
| "truthy (JNum n) = (n \<noteq> 0)"
| "truthy (JStr s) = (s \<noteq> [])"
| "truthy (JArr xs) = (xs \<noteq> [])"
| "truthy (JObj kvs) = (kvs \<noteq> [])"

text \<open>\<^verbatim>\<open>v.get(k)\<close>: only a dict has the method.\<close>

fun py_get :: "json \<Rightarrow> string \<Rightarrow> py_exn + json" where
  "py_get (JObj kvs) k = Inr (case map_of kvs k of None \<Rightarrow> JNull | Some x \<Rightarrow> x)"
| "py_get _ k = Inl AttributeError"

text \<open>\<^verbatim>\<open>v[k]\<close> with a string key.\<close>

fun py_item :: "json \<Rightarrow> string \<Rightarrow> py_exn + json" where
  "py_item (JObj kvs) k = (case map_of kvs k of None \<Rightarrow> Inl KeyError | Some x \<Rightarrow> Inr x)"
| "py_item _ k = Inl TypeError"

text \<open>\<^verbatim>\<open>v[0]\<close>.\<close>

fun py_first :: "json \<Rightarrow> py_exn + json" where
  "py_first (JArr []) = Inl IndexError"
| "py_first (JArr (x # xs)) = Inr x"
| "py_first (JStr []) = Inl IndexError"
| "py_first (JStr (c # cs)) = Inr (JStr [c])"
| "py_first (JObj kvs) = Inl KeyError"
| "py_first _ = Inl TypeError"

fun py_len :: "json \<Rightarrow> py_exn + nat" where
  "py_len (JStr s) = Inr (length s)"
| "py_len (JArr xs) = Inr (length xs)"
| "py_len (JObj kvs) = Inr (length kvs)"
| "py_len _ = Inl TypeError"

text \<open>\<^verbatim>\<open>for name in v\<close>: the elements of a list, the characters of a string, the keys of a dict.\<close>

fun py_iter :: "json \<Rightarrow> py_exn + json list" where
  "py_iter (JArr xs) = Inr xs"
| "py_iter (JStr s) = Inr (map (\<lambda>c. JStr [c]) s)"
| "py_iter (JObj kvs) = Inr (map (\<lambda>kv. JStr (fst kv)) kvs)"
| "py_iter _ = Inl TypeError"

fun startswith :: "string \<Rightarrow> string \<Rightarrow> bool" where
  "startswith s [] = True"
| "startswith [] (c # cs) = False"
| "startswith (d # ds) (c # cs) = (d = c \<and> startswith ds cs)"

fun substring :: "string \<Rightarrow> string \<Rightarrow> bool" where
  "substring x [] = (x = [])"
| "substring x (c # cs) = (startswith (c # cs) x \<or> substring x cs)"

text \<open>\<^verbatim>\<open>x in v\<close> for a string \<open>x\<close>.\<close>

fun py_in :: "string \<Rightarrow> json \<Rightarrow> py_exn + bool" where
  "py_in x (JArr xs) = Inr (JStr x \<in> set xs)"
| "py_in x (JStr s) = Inr (substring x s)"
| "py_in x (JObj kvs) = Inr (x \<in> fst ` set kvs)"
| "py_in x _ = Inl TypeError"

subsection \<open>Strings\<close>

text \<open>
  \<^verbatim>\<open>str.isspace\<close> on the code points below 256, \<^verbatim>\<open>str.strip()\<close>,
  \<^verbatim>\<open>str.split(',')\<close>, \<^verbatim>\<open>sep.join\<close> and \<^verbatim>\<open>str.lower()\<close> on the ASCII letters
  (no other character lowers to an ASCII letter that the script compares with).
\<close>

definition isspace :: "char \<Rightarrow> bool" where
  "isspace c = (of_char c \<in> set [9, 10, 11, 12, 13, 28, 29, 30, 31, 32, 133, 160 :: nat])"

definition strip :: "string \<Rightarrow> string" where
  "strip s = rev (dropWhile isspace (rev (dropWhile isspace s)))"

fun split :: "char \<Rightarrow> string \<Rightarrow> string list" where
  "split d [] = [[]]"
| "split d (c # cs) =
     (if c = d then [] # split d cs
      else (case split d cs of [] \<Rightarrow> [[c]] | p # ps \<Rightarrow> (c # p) # ps))"

fun join :: "string \<Rightarrow> string list \<Rightarrow> string" where
  "join sep [] = []"
| "join sep [x] = x"
| "join sep (x # y # ys) = x @ sep @ join sep (y # ys)"

definition lower_char :: "char \<Rightarrow> char" where
  "lower_char c =
     (case map_of (zip ''ABCDEFGHIJKLMNOPQRSTUVWXYZ'' ''abcdefghijklmnopqrstuvwxyz'') c of
        None \<Rightarrow> c | Some l \<Rightarrow> l)"

definition lower :: "string \<Rightarrow> string" where
  "lower s = map lower_char s"

section \<open>The script\<close>

subsection \<open>\<^verbatim>\<open>get_gemini_api_key\<close>\<close>

definition get_gemini_api_key :: "env \<Rightarrow> world \<Rightarrow> string option \<times> world" where
  "get_gemini_api_key E w =
     (let api_key = environ E ''GEMINI_API_KEY'' in
      if api_key = None \<or> api_key = Some [] then
        (None,
         py_print [Txt ''---'']
          (py_print [Txt ''You can get a key from Google AI Studio.'']
            (py_print [Txt ''Please set the environment variable with your Gemini API key.'']
              (py_print [Txt ''ERROR: GEMINI_API_KEY environment variable not set.'']
                (py_print [Txt ''---''] w)))))
      else (api_key, w))"

subsection \<open>\<^verbatim>\<open>generate_flashcard_content\<close>\<close>

definition prompt :: "string \<Rightarrow> string" where
  "prompt concept =
     ''You are an assistant that creates educational flashcards. '' @
     ''For the term '' @ [CHR 0x27] @ concept @ [CHR 0x27] @ '', provide a clear, concise definition and a simple, '' @
     ''illustrative example sentence and/or model/instance. '' @
     ''if the term contains an indication of a foreign language, remove the name of the language from the card title'' @
     ''If the definition involves multiple distinct concepts or types (like different types of engines), '' @
     ''please describe each in a separate HTML paragraph (`<p>`). '' @
     ''Format the entire response using HTML tags. '' @
     ''The definition should come first, followed by the example. '' @
     ''Ensure the example is italicized using `<i>` tags. '' @
     ''Do not include any JSON formatting, just the complete HTML string.'' @
     ''if the provided concept is in quotation marks, cite the quotation as I am trying to commit this quote to memory and want to accurately remember the source''"

definition payload :: "string \<Rightarrow> json" where
  "payload concept =
     JObj [(''contents'', JArr [JObj [(''parts'', JArr [JObj [(''text'', JStr (prompt concept))]])]]),
           (''generationConfig'', JObj [(''response_mime_type'', JStr ''text/plain'')])]"

definition gemini_url :: "string \<Rightarrow> string" where
  "gemini_url api_key =
     ''https://generativelanguage.googleapis.com/v1beta/models/gemini-2.5-flash:generateContent?key='' @ api_key"

text \<open>
  The condition of the \<^verbatim>\<open>if\<close> that guards the extraction, a chain of \<^verbatim>\<open>and\<close>
  evaluated left to right, each operand able to raise.
\<close>

definition has_text_content :: "json \<Rightarrow> py_exn + bool" where
  "has_text_content result =
     exn_bind (py_get result ''candidates'') (\<lambda>c.
     if \<not> truthy c then Inr False else
     exn_bind (exn_bind (py_item result ''candidates'') py_len) (\<lambda>n.
     if \<not> n > 0 then Inr False else
     exn_bind (exn_bind (exn_bind (py_item result ''candidates'') py_first)
                 (\<lambda>c0. py_get c0 ''content'')) (\<lambda>content.
     if \<not> truthy content then Inr False else
     exn_bind (exn_bind (exn_bind (exn_bind (py_item result ''candidates'') py_first)
                 (\<lambda>c0. py_item c0 ''content'')) (\<lambda>ct. py_get ct ''parts'')) (\<lambda>parts.
     if \<not> truthy parts then Inr False else
     exn_bind (exn_bind (exn_bind (exn_bind (exn_bind (py_item result ''candidates'') py_first)
                 (\<lambda>c0. py_item c0 ''content'')) (\<lambda>ct. py_item ct ''parts'')) py_len) (\<lambda>m.
     Inr (m > 0))))))"

text \<open>\<^verbatim>\<open>result['candidates'][0]['content']['parts'][0]['text']\<close>\<close>

definition content_html :: "json \<Rightarrow> py_exn + json" where
  "content_html result =
     exn_bind (exn_bind (exn_bind (exn_bind (exn_bind (py_item result ''candidates'') py_first)
       (\<lambda>c0. py_item c0 ''content'')) (\<lambda>ct. py_item ct ''parts'')) py_first)
       (\<lambda>p0. py_item p0 ''text'')"

text \<open>
  The body of the outer \<^verbatim>\<open>try\<close>, from the request to the \<^verbatim>\<open>return\<close>s inside it:
  \<open>Inl e\<close> when \<open>e\<close> is raised there.
\<close>

definition generate_try :: "env \<Rightarrow> string \<Rightarrow> string \<Rightarrow> world \<Rightarrow> (py_exn + json) \<times> world" where
  "generate_try E api_key concept w =
     (let w1 = w\<lparr>out := out w @
                 [HttpPost (gemini_url api_key) [(''Content-Type'', ''application/json'')] (payload concept)]\<rparr>
      in case urlopen E (gemini_url api_key) (payload concept) of
        Raises e \<Rightarrow> (Inl e, w1)
      | Response status reason body \<Rightarrow>
          (case body of
             None \<Rightarrow> (Inl UnicodeDecodeError, w1)
           | Some response_body \<Rightarrow>
               if status = 200 then
                 (case json_loads E response_body of
                    None \<Rightarrow>
                      (Inr JNull,
                       py_print [Txt ''Error: Could not decode JSON from Gemini API text response. Response body: '',
                                 Txt response_body] w1)
                  | Some result \<Rightarrow>
                      (case has_text_content result of
                         Inl e \<Rightarrow> (Inl e, w1)
                       | Inr True \<Rightarrow>
                           (case content_html result of
                              Inl e \<Rightarrow> (Inl e, w1)
                            | Inr html \<Rightarrow> (Inr html, w1))
                       | Inr False \<Rightarrow>
                           (Inr JNull,
                            py_print [Txt ''Error: No text content found in Gemini API response. Response: '',
                                      Val result] w1)))
               else
                 (Inr JNull,
                  py_print [Txt ''Error from Gemini API (text generation): Status '', Num status,
                            Txt '', Reason: '', Txt reason, Txt ''. Response body: '', Txt response_body] w1)))"

text \<open>
  The function: the first \<^verbatim>\<open>print\<close>, the \<^verbatim>\<open>try\<close> and its two handlers. An
  exception raised inside a handler leaves the function. Here the console accepts
  every line; \<open>generate_flashcard_content_on\<close> below is the function on a console
  that can refuse one.
\<close>

definition generate_flashcard_content ::
    "env \<Rightarrow> string \<Rightarrow> string \<Rightarrow> world \<Rightarrow> (py_exn + json) \<times> world" where
  "generate_flashcard_content E api_key concept w =
     (case generate_try E api_key concept
             (py_print [Txt (''\<newline>Generating definition and example for '' @ [CHR 0x27]), Txt concept,
                        Txt ([CHR 0x27] @ '' using Gemini...'')] w) of
        (Inr v, w') \<Rightarrow> (Inr v, w')
      | (Inl (HTTPError code reason body), w') \<Rightarrow>
          (case body of
             None \<Rightarrow> (Inl UnicodeDecodeError, w')
           | Some error_body \<Rightarrow>
               (Inr JNull,
                py_print [Txt ''HTTP Error from Gemini API (text generation): Status '', Num code,
                          Txt '', Reason: '', Txt reason, Txt ''. Response body: '', Txt error_body] w'))
      | (Inl e, w') \<Rightarrow>
          (Inr JNull,
           py_print [Txt ''An unexpected error occurred while calling the Gemini API (text generation): '',
                     Err e] w'))"

subsection \<open>\<^verbatim>\<open>anki_request\<close>\<close>

definition anki_url :: string where
  "anki_url = ''http://localhost:8765''"

definition envelope :: "string \<Rightarrow> (string \<times> json) list \<Rightarrow> json" where
  "envelope action params =
     JObj [(''action'', JStr action), (''version'', JNum 6), (''params'', JObj params)]"

text \<open>
  The body of the \<^verbatim>\<open>try\<close>: \<^verbatim>\<open>urlopen\<close>, \<^verbatim>\<open>json.load\<close>, the error check. The
  body of the response is the text that \<^verbatim>\<open>json.load\<close> decodes from its bytes.
\<close>

definition anki_try :: "env \<Rightarrow> string \<Rightarrow> (string \<times> json) list \<Rightarrow> py_exn + json" where
  "anki_try E action params =
     (case urlopen E anki_url (envelope action params) of
        Raises e \<Rightarrow> Inl e
      | Response status reason body \<Rightarrow>
          (case body of
             None \<Rightarrow> Inl UnicodeDecodeError
           | Some text \<Rightarrow>
               (case json_loads E text of
                  None \<Rightarrow> Inl JSONDecodeError
                | Some response_data \<Rightarrow>
                    exn_bind (py_get response_data ''error'') (\<lambda>err.
                    if truthy err then exn_bind (py_item response_data ''error'') (\<lambda>v. Inl (Exception v))
                    else py_get response_data ''result''))))"

text \<open>
  The function, on a console that accepts every line; \<open>anki_request_on\<close> below is
  the function on a console that can refuse one.
\<close>

definition anki_request ::
    "env \<Rightarrow> string \<Rightarrow> (string \<times> json) list \<Rightarrow> world \<Rightarrow> (py_exn + json) \<times> world" where
  "anki_request E action params w =
     (let w1 = w\<lparr>out := out w @ [HttpPost anki_url [] (envelope action params)]\<rparr>
      in case anki_try E action params of
        Inr v \<Rightarrow> (Inr v, w1)
      | Inl e \<Rightarrow>
          (Inr JNull,
           py_print [Txt ''Please ensure Anki is running and the AnkiConnect add-on is installed and configured correctly.'']
             (py_print [Txt ''Error communicating with AnkiConnect: '', Err e] w1)))"

subsection \<open>\<^verbatim>\<open>create_flashcard\<close>\<close>

text \<open>The list comprehension over the pieces of the tags line.\<close>

definition normalize_tags :: "string \<Rightarrow> string list" where
  "normalize_tags line = map strip (filter (\<lambda>tag. strip tag \<noteq> []) (split CHR '','' line))"

definition make_note :: "string \<Rightarrow> string \<Rightarrow> json \<Rightarrow> string list \<Rightarrow> json" where
  "make_note deck_name front back tags =
     JObj [(''deckName'', JStr deck_name),
           (''modelName'', JStr ''Basic''),
           (''fields'', JObj [(''Front'', JStr front), (''Back'', back)]),
           (''options'', JObj [(''allowDuplicate'', JBool False), (''duplicateScope'', JStr ''deck'')]),
           (''tags'', JArr (map JStr tags))]"

text \<open>
  The favourite-deck prompts: \<open>Inr (Some d)\<close> when \<^verbatim>\<open>deck_name\<close> is bound to
  \<open>d\<close>, \<open>Inr None\<close> when neither branch assigned it.
\<close>

definition choose_deck :: "world \<Rightarrow> (py_exn + string option) \<times> world" where
  "choose_deck w =
     (case py_input [Txt ''\<newline>AI_Adder?''] w of
        (Inl e, w1) \<Rightarrow> (Inl e, w1)
      | (Inr a1, w1) \<Rightarrow>
          if a1 = ''y'' then (Inr (Some ''AI_Adder''), w1)
          else
            (case py_input [Txt ''\<newline>AI_Adder?''] w1 of
               (Inl e, w2) \<Rightarrow> (Inl e, w2)
             | (Inr a2, w2) \<Rightarrow>
                 if a2 = ''n'' then
                   (case py_input [Txt ''\<newline>Enter the name of the deck to add the card to: ''] w2 of
                      (Inl e, w3) \<Rightarrow> (Inl e, w3)
                    | (Inr d, w3) \<Rightarrow> (Inr (Some d), w3))
                 else (Inr None, w2)))"

text \<open>
  The membership test and what follows it in the first \<^verbatim>\<open>try\<close>: \<open>Inl e\<close>
  when \<open>e\<close> is raised, \<open>Inr None\<close> when the function returns, \<open>Inr (Some d)\<close>
  when control leaves the \<^verbatim>\<open>try\<close> with the deck \<open>d\<close>.
\<close>

definition confirm_deck ::
    "env \<Rightarrow> string \<Rightarrow> json \<Rightarrow> world \<Rightarrow> (py_exn + string option) \<times> world" where
  "confirm_deck E deck_name deck_names w =
     (case py_in deck_name deck_names of
        Inl e \<Rightarrow> (Inl e, w)
      | Inr True \<Rightarrow> (Inr (Some deck_name), w)
      | Inr False \<Rightarrow>
          (case py_input [Txt (''Deck '' @ [CHR 0x27]), Txt deck_name,
                          Txt ([CHR 0x27] @ '' does not exist. Create it? (y/n): '')] w of
             (Inl e, w1) \<Rightarrow> (Inl e, w1)
           | (Inr create_deck, w1) \<Rightarrow>
               if lower create_deck = ''y'' then
                 (case anki_request E ''createDeck'' [(''deck'', JStr deck_name)] w1 of
                    (Inl e, w2) \<Rightarrow> (Inl e, w2)
                  | (Inr r, w2) \<Rightarrow>
                      if r = JNull then
                        (Inr None,
                         py_print [Txt (''Failed to create deck '' @ [CHR 0x27]), Txt deck_name,
                                   Txt ([CHR 0x27] @ ''.'')] w2)
                      else
                        (Inr (Some deck_name),
                         py_print [Txt (''Deck '' @ [CHR 0x27]), Txt deck_name,
                                   Txt ([CHR 0x27] @ '' created successfully.'')] w2))
               else (Inr None, py_print [Txt ''Card creation cancelled.''] w1)))"

text \<open>The first \<^verbatim>\<open>try\<close> of \<^verbatim>\<open>create_flashcard\<close>, with the same three outcomes.\<close>

definition handle_decks :: "env \<Rightarrow> world \<Rightarrow> (py_exn + string option) \<times> world" where
  "handle_decks E w =
     (case anki_request E ''deckNames'' [] w of
        (Inl e, w1) \<Rightarrow> (Inl e, w1)
      | (Inr deck_names, w1) \<Rightarrow>
          if deck_names = JNull then (Inr None, w1)
          else
            (case py_iter deck_names of
               Inl e \<Rightarrow> (Inl e, py_print [Txt ''\<newline>Available Decks:''] w1)
             | Inr names \<Rightarrow>
                 (case choose_deck
                         (fold (\<lambda>name. py_print [Txt ''- '', Val name]) names
                            (py_print [Txt ''\<newline>Available Decks:''] w1)) of
                    (Inl e, w2) \<Rightarrow> (Inl e, w2)
                  | (Inr None, w2) \<Rightarrow> (Inl UnboundLocalError, w2)
                  | (Inr (Some deck_name), w2) \<Rightarrow> confirm_deck E deck_name deck_names w2)))"

text \<open>How a run of \<^verbatim>\<open>create_flashcard\<close> ends.\<close>

datatype ending = Returned | Propagated py_exn

text \<open>Steps 2 to 4 of the function, once the deck is known.\<close>

definition add_card :: "env \<Rightarrow> string \<Rightarrow> string \<Rightarrow> world \<Rightarrow> ending \<times> world" where
  "add_card E gemini_api_key deck_name w =
     (case py_input [Txt ''\<newline>Enter the word or concept for the flashcard: ''] w of
        (Inl e, w1) \<Rightarrow> (Propagated e, w1)
      | (Inr concept, w1) \<Rightarrow>
          (case generate_flashcard_content E gemini_api_key concept w1 of
             (Inl e, w2) \<Rightarrow> (Propagated e, w2)
           | (Inr generated_content_html, w2) \<Rightarrow>
               if \<not> truthy generated_content_html then
                 (Returned, py_print [Txt ''Could not generate card content. Please try again.''] w2)
               else
                 (case py_input [Txt ''Enter tags for the card (comma-separated, optional): ''] w2 of
                    (Inl e, w3) \<Rightarrow> (Propagated e, w3)
                  | (Inr line, w3) \<Rightarrow>
                      (let tags = normalize_tags line;
                           note = make_note deck_name concept generated_content_html tags
                       in case anki_request E ''addNote'' [(''note'', note)] w3 of
                         (Inl e, w4) \<Rightarrow>
                           (Returned, py_print [Txt ''An error occurred while adding the note: '', Err e] w4)
                       | (Inr result, w4) \<Rightarrow>
                           if truthy result then
                             (Returned,
                              py_print [Txt ''  Tags: '', Txt (join '', '' tags)]
                               (py_print [Txt ''  Back Content (HTML): \<newline>'', Val generated_content_html]
                                 (py_print [Txt ''  Front: '', Txt concept]
                                   (py_print [Txt (''\<newline>Successfully added card to '' @ [CHR 0x27]), Txt deck_name,
                                              Txt ([CHR 0x27] @ ''!'')] w4))))
                           else
                             (Returned,
                              py_print [Txt ''\<newline>Failed to add the card. Check for errors above.''] w4)))))"

definition create_flashcard :: "env \<Rightarrow> world \<Rightarrow> ending \<times> world" where
  "create_flashcard E w =
     (case get_gemini_api_key E (py_print [Txt ''--- AI-Powered Anki Flashcard Adder ---''] w) of
        (gemini_api_key, w1) \<Rightarrow>
          if gemini_api_key = None \<or> gemini_api_key = Some [] then (Returned, w1)
          else
            (case handle_decks E w1 of
               (Inl e, w2) \<Rightarrow>
                 (Returned, py_print [Txt ''An error occurred while handling decks: '', Err e] w2)
             | (Inr None, w2) \<Rightarrow> (Returned, w2)
             | (Inr (Some deck_name), w2) \<Rightarrow> add_card E (the gemini_api_key) deck_name w2))"

subsection \<open>The two helpers on a console that can refuse a line\<close>

text \<open>
  \<^verbatim>\<open>print\<close> encodes the line for the console before it writes anything, and raises
  \<open>UnicodeEncodeError\<close> when the encoding has no bytes for a character: a
  character outside ASCII on an ASCII console, a lone surrogate on any. A console is
  given by the lines it accepts.
\<close>

type_synonym console = "frag list \<Rightarrow> bool"

definition print_on :: "console \<Rightarrow> frag list \<Rightarrow> world \<Rightarrow> (py_exn + unit) \<times> world" where
  "print_on accepts fs w =
     (if accepts fs then (Inr (), py_print fs w) else (Inl UnicodeEncodeError, w))"

text \<open>
  The body of the outer \<^verbatim>\<open>try\<close> of \<^verbatim>\<open>generate_flashcard_content\<close>: the three
  \<^verbatim>\<open>print\<close>s in it can raise as every other statement of it can.
\<close>

definition generate_try_on ::
    "console \<Rightarrow> env \<Rightarrow> string \<Rightarrow> string \<Rightarrow> world \<Rightarrow> (py_exn + json) \<times> world" where
  "generate_try_on accepts E api_key concept w =
     (let w1 = w\<lparr>out := out w @
                 [HttpPost (gemini_url api_key) [(''Content-Type'', ''application/json'')] (payload concept)]\<rparr>
      in case urlopen E (gemini_url api_key) (payload concept) of
        Raises e \<Rightarrow> (Inl e, w1)
      | Response status reason body \<Rightarrow>
          (case body of
             None \<Rightarrow> (Inl UnicodeDecodeError, w1)
           | Some response_body \<Rightarrow>
               if status = 200 then
                 (case json_loads E response_body of
                    None \<Rightarrow>
                      (case print_on accepts
                              [Txt ''Error: Could not decode JSON from Gemini API text response. Response body: '',
                               Txt response_body] w1 of
                         (Inl e, w2) \<Rightarrow> (Inl e, w2)
                       | (Inr u, w2) \<Rightarrow> (Inr JNull, w2))
                  | Some result \<Rightarrow>
                      (case has_text_content result of
                         Inl e \<Rightarrow> (Inl e, w1)
                       | Inr True \<Rightarrow>
                           (case content_html result of
                              Inl e \<Rightarrow> (Inl e, w1)
                            | Inr html \<Rightarrow> (Inr html, w1))
                       | Inr False \<Rightarrow>
                           (case print_on accepts
                                   [Txt ''Error: No text content found in Gemini API response. Response: '',
                                    Val result] w1 of
                              (Inl e, w2) \<Rightarrow> (Inl e, w2)
                            | (Inr u, w2) \<Rightarrow> (Inr JNull, w2))))
               else
                 (case print_on accepts
                         [Txt ''Error from Gemini API (text generation): Status '', Num status,
                          Txt '', Reason: '', Txt reason, Txt ''. Response body: '', Txt response_body] w1 of
                    (Inl e, w2) \<Rightarrow> (Inl e, w2)
                  | (Inr u, w2) \<Rightarrow> (Inr JNull, w2))))"

text \<open>
  The function: the \<^verbatim>\<open>print\<close> on line 32 stands before the \<^verbatim>\<open>try\<close>, and the
  \<^verbatim>\<open>print\<close>s on lines 88 and 91 stand in the handlers, so what they raise leaves the
  function, as what the decoding on line 87 raises does.
\<close>

definition generate_flashcard_content_on ::
    "console \<Rightarrow> env \<Rightarrow> string \<Rightarrow> string \<Rightarrow> world \<Rightarrow> (py_exn + json) \<times> world" where
  "generate_flashcard_content_on accepts E api_key concept w =
     (case print_on accepts
             [Txt (''\<newline>Generating definition and example for '' @ [CHR 0x27]), Txt concept,
              Txt ([CHR 0x27] @ '' using Gemini...'')] w of
        (Inl e, w0) \<Rightarrow> (Inl e, w0)
      | (Inr u, w0) \<Rightarrow>
          (case generate_try_on accepts E api_key concept w0 of
             (Inr v, w') \<Rightarrow> (Inr v, w')
           | (Inl (HTTPError code reason body), w') \<Rightarrow>
               (case body of
                  None \<Rightarrow> (Inl UnicodeDecodeError, w')
                | Some error_body \<Rightarrow>
                    (case print_on accepts
                            [Txt ''HTTP Error from Gemini API (text generation): Status '', Num code,
                             Txt '', Reason: '', Txt reason, Txt ''. Response body: '', Txt error_body] w' of
                       (Inl e, w'') \<Rightarrow> (Inl e, w'')
                     | (Inr u, w'') \<Rightarrow> (Inr JNull, w'')))
           | (Inl e, w') \<Rightarrow>
               (case print_on accepts
                       [Txt ''An unexpected error occurred while calling the Gemini API (text generation): '',
                        Err e] w' of
                  (Inl e', w'') \<Rightarrow> (Inl e', w'')
                | (Inr u, w'') \<Rightarrow> (Inr JNull, w''))))"

text \<open>
  \<^verbatim>\<open>anki_request\<close>: the two \<^verbatim>\<open>print\<close>s on lines 107 and 108 stand in the handler,
  so what they raise leaves the function.
\<close>

definition anki_request_on ::
    "console \<Rightarrow> env \<Rightarrow> string \<Rightarrow> (string \<times> json) list \<Rightarrow> world \<Rightarrow> (py_exn + json) \<times> world" where
  "anki_request_on accepts E action params w =
     (let w1 = w\<lparr>out := out w @ [HttpPost anki_url [] (envelope action params)]\<rparr>
      in case anki_try E action params of
        Inr v \<Rightarrow> (Inr v, w1)
      | Inl e \<Rightarrow>
          (case print_on accepts [Txt ''Error communicating with AnkiConnect: '', Err e] w1 of
             (Inl e', w2) \<Rightarrow> (Inl e', w2)
           | (Inr u, w2) \<Rightarrow>
               (case print_on accepts
                       [Txt ''Please ensure Anki is running and the AnkiConnect add-on is installed and configured correctly.''] w2 of
                  (Inl e', w3) \<Rightarrow> (Inl e', w3)
                | (Inr u', w3) \<Rightarrow> (Inr JNull, w3))))"

section \<open>Vocabulary of the properties\<close>

text \<open>
  The path \<^verbatim>\<open>candidates[0].content.parts[0]\<close> of a parsed response, read as
  JSON: a member of an object, the first element of an array.
\<close>

fun member :: "string \<Rightarrow> json \<Rightarrow> json option" where
  "member k (JObj kvs) = map_of kvs k"
| "member k _ = None"

fun first_element :: "json \<Rightarrow> json option" where
  "first_element (JArr (x # xs)) = Some x"
| "first_element _ = None"

definition first_part :: "json \<Rightarrow> json option" where
  "first_part result =
     Option.bind (member ''candidates'' result) (\<lambda>c.
     Option.bind (first_element c) (\<lambda>c0.
     Option.bind (member ''content'' c0) (\<lambda>content.
     Option.bind (member ''parts'' content) first_element)))"

definition first_part_text :: "json \<Rightarrow> json option" where
  "first_part_text result = Option.bind (first_part result) (member ''text'')"

text \<open>Requests with the action \<^verbatim>\<open>addNote\<close>, and the lines of the success report.\<close>

fun is_addNote :: "event \<Rightarrow> bool" where
  "is_addNote (HttpPost url headers data) = (py_item data ''action'' = Inr (JStr ''addNote''))"
| "is_addNote _ = False"

fun is_post :: "event \<Rightarrow> bool" where
  "is_post (HttpPost url headers data) = True"
| "is_post _ = False"

fun is_success :: "event \<Rightarrow> bool" where
  "is_success (Print (Txt s # fs)) = (s = ''\<newline>Successfully added card to '' @ [CHR 0x27])"
| "is_success _ = False"

definition success_line :: "string \<Rightarrow> event" where
  "success_line deck_name =
     Print [Txt (''\<newline>Successfully added card to '' @ [CHR 0x27]), Txt deck_name, Txt ([CHR 0x27] @ ''!'')]"

definition failure_line :: event where
  "failure_line = Print [Txt ''\<newline>Failed to add the card. Check for errors above.'']"

text \<open>The \<^verbatim>\<open>options\<close> of the note that a request carries.\<close>

definition note_options :: "event \<Rightarrow> py_exn + json" where
  "note_options ev =
     (case ev of
        HttpPost url headers data \<Rightarrow>
          exn_bind (exn_bind (exn_bind (py_item data ''params'') (\<lambda>p. py_item p ''note''))
            (\<lambda>n. py_item n ''options'')) Inr
      | _ \<Rightarrow> Inl KeyError)"

text \<open>The notes that the \<^verbatim>\<open>addNote\<close> requests of a trace carry, in order.\<close>

definition notes_sent :: "event list \<Rightarrow> (py_exn + json) list" where
  "notes_sent evs =
     map (\<lambda>ev. case ev of
                 HttpPost url headers data \<Rightarrow>
                   exn_bind (py_item data ''params'') (\<lambda>p. py_item p ''note'')
               | _ \<Rightarrow> Inl KeyError)
         (filter is_addNote evs)"

text \<open>The \<^verbatim>\<open>tags\<close> of those notes.\<close>

definition tags_sent :: "event list \<Rightarrow> (py_exn + json) list" where
  "tags_sent evs = map (\<lambda>n. exn_bind n (\<lambda>note. py_item note ''tags'')) (notes_sent evs)"

text \<open>
  A reply of the store with a non-empty \<^verbatim>\<open>error\<close> field (non-empty as Python
  tests it: not \<^verbatim>\<open>null\<close>, \<^verbatim>\<open>false\<close>, zero or an empty string, list or dict), and
  the requests that get such a reply.
\<close>

definition error_reply :: "env \<Rightarrow> string \<Rightarrow> json \<Rightarrow> bool" where
  "error_reply E url data =
     (case urlopen E url data of
        Response status reason (Some body) \<Rightarrow>
          (case json_loads E body of
             Some (JObj kvs) \<Rightarrow> (case map_of kvs ''error'' of Some err \<Rightarrow> truthy err | None \<Rightarrow> False)
           | _ \<Rightarrow> False)
      | _ \<Rightarrow> False)"

fun rejected :: "env \<Rightarrow> event \<Rightarrow> bool" where
  "rejected E (HttpPost url headers data) = error_reply E url data"
| "rejected E _ = False"

text \<open>Events that are neither an \<^verbatim>\<open>addNote\<close> request nor the success report.\<close>

definition quiet :: "event \<Rightarrow> bool" where
  "quiet ev = (\<not> is_addNote ev \<and> \<not> is_success ev)"

text \<open>A run from \<open>w\<close> to \<open>w'\<close> that adds only such events to the trace.\<close>

definition grows :: "world \<Rightarrow> world \<Rightarrow> bool" where
  "grows w w' = (\<exists>evs. out w' = out w @ evs \<and> list_all quiet evs)"

text \<open>
  The exceptions that reading a parsed value can raise, and the statement that a
  computation raises only exceptions of a given kind.
\<close>

definition lookup_error :: "py_exn \<Rightarrow> bool" where
  "lookup_error e = (e \<in> {AttributeError, TypeError, KeyError, IndexError})"

definition raises_only :: "(py_exn \<Rightarrow> bool) \<Rightarrow> py_exn + 'a \<Rightarrow> bool" where
  "raises_only P m = (case m of Inl e \<Rightarrow> P e | Inr x \<Rightarrow> True)"

subsection \<open>A concrete store and generator\<close>

text \<open>
  An environment for running the script on concrete inputs: the key is set, the
  store lists the deck \<^verbatim>\<open>Default\<close> and creates any deck, and the answers of the
  generator and of the store to \<^verbatim>\<open>addNote\<close> are given. \<open>parse\<close> is
  \<^verbatim>\<open>json.loads\<close> on the bodies that occur.
\<close>

definition parse :: "string \<Rightarrow> json option" where
  \<open>parse =
     map_of
      [(''{"result": ["Default"], "error": null}'',
          JObj [(''result'', JArr [JStr ''Default'']), (''error'', JNull)]),
       (''{"result": 1752537600000, "error": null}'',
          JObj [(''result'', JNum 1752537600000), (''error'', JNull)]),
       (''{"result": null, "error": "cannot create note because it is a duplicate"}'',
          JObj [(''result'', JNull), (''error'', JStr ''cannot create note because it is a duplicate'')]),
       (''{"candidates": [{"content": {"parts": [{"text": "<p>Def</p><i>Example</i>"}]}}]}'',
          JObj [(''candidates'', JArr [JObj [(''content'',
            JObj [(''parts'', JArr [JObj [(''text'', JStr ''<p>Def</p><i>Example</i>'')]])])]])]),
       (''{"candidates": [{"content": {"parts": [{"text": 5}]}}]}'',
          JObj [(''candidates'', JArr [JObj [(''content'',
            JObj [(''parts'', JArr [JObj [(''text'', JNum 5)]])])]])])]\<close>

definition service :: "http_outcome \<Rightarrow> http_outcome \<Rightarrow> env" where
  \<open>service generator add_note =
     \<lparr>environ = (\<lambda>name. if name = ''GEMINI_API_KEY'' then Some ''KEY'' else None),
      json_loads = parse,
      urlopen = (\<lambda>url data.
        if url = anki_url then
          if py_item data ''action'' = Inr (JStr ''deckNames'')
          then Response 200 ''OK'' (Some ''{"result": ["Default"], "error": null}'')
          else if py_item data ''action'' = Inr (JStr ''createDeck'')
          then Response 200 ''OK'' (Some ''{"result": 1752537600000, "error": null}'')
          else add_note
        else generator)\<rparr>\<close>

text \<open>
  A console with the ASCII encoding: it accepts a line when the text of each of its
  pieces is ASCII. An exception raised with a string prints as that string; a parsed
  value prints with its strings unchanged.
\<close>

definition ascii :: "string \<Rightarrow> bool" where
  "ascii s = list_all (\<lambda>c. of_char c < (128 :: nat)) s"

fun ascii_json :: "json \<Rightarrow> bool" where
  "ascii_json (JStr s) = ascii s"
| "ascii_json (JArr xs) = list_all ascii_json xs"
| "ascii_json (JObj kvs) = list_all (\<lambda>kv. ascii (fst kv) \<and> ascii_json (snd kv)) kvs"
| "ascii_json v = True"

fun ascii_exn :: "py_exn \<Rightarrow> bool" where
  "ascii_exn (Exception v) = (case v of JStr s \<Rightarrow> ascii s | _ \<Rightarrow> ascii_json v)"
| "ascii_exn (HTTPError code reason body) = ascii reason"
| "ascii_exn (URLError reason) = ascii reason"
| "ascii_exn (OtherError message) = ascii message"
| "ascii_exn e = True"

fun ascii_frag :: "frag \<Rightarrow> bool" where
  "ascii_frag (Txt s) = ascii s"
| "ascii_frag (Num n) = True"
| "ascii_frag (Val v) = ascii_json v"
| "ascii_frag (Err e) = ascii_exn e"

definition ascii_console :: console where
  "ascii_console fs = list_all ascii_frag fs"



text \<open>
  A store that answers every request with an error whose message has a character
  outside ASCII, \<^verbatim>\<open>caf\<close> followed by the code point 233.
\<close>

definition accented_error :: env where
  \<open>accented_error =
     \<lparr>environ = (\<lambda>name. if name = ''GEMINI_API_KEY'' then Some ''KEY'' else None),
      json_loads = map_of
        [(''{"result": null, "error": "caf'' @ [CHR 0xE9] @ ''"}'',
          JObj [(''result'', JNull), (''error'', JStr (''caf'' @ [CHR 0xE9]))])],
      urlopen = (\<lambda>url data.
        Response 200 ''OK'' (Some (''{"result": null, "error": "caf'' @ [CHR 0xE9] @ ''"}'')))\<rparr>\<close>

definition def_and_example :: http_outcome where
  \<open>def_and_example =
     Response 200 ''OK'' (Some ''{"candidates": [{"content": {"parts": [{"text": "<p>Def</p><i>Example</i>"}]}}]}'')\<close>

definition note_added :: http_outcome where
  \<open>note_added = Response 200 ''OK'' (Some ''{"result": 1752537600000, "error": null}'')\<close>

definition duplicate_rejected :: http_outcome where
  \<open>duplicate_rejected =
     Response 200 ''OK'' (Some ''{"result": null, "error": "cannot create note because it is a duplicate"}'')\<close>

section \<open>Basic facts\<close>

lemma exn_bind_simps [simp]:
  "exn_bind (Inl e) f = Inl e" "exn_bind (Inr x) f = f x"
  by (simp_all add: exn_bind_def)

lemma exn_bind_Inr: "exn_bind m f = Inr y \<longleftrightarrow> (\<exists>x. m = Inr x \<and> f x = Inr y)"
  by (cases m) auto

lemma out_py_print [simp]: "out (py_print fs w) = out w @ [Print fs]"
  and stdin_py_print [simp]: "stdin (py_print fs w) = stdin w"
  by (simp_all add: py_print_def)

section \<open>Tags\<close>

lemma split_not_Nil: "split d s \<noteq> []"
  by (induction s) (auto split: list.splits)

lemma split_no_delim: "p \<in> set (split d s) \<Longrightarrow> d \<notin> set p"
proof (induction s arbitrary: p)
  case Nil
  then show ?case by simp
next
  case (Cons c cs)
  show ?case
  proof (cases "c = d")
    case True
    with Cons show ?thesis by auto
  next
    case False
    obtain q qs where q: "split d cs = q # qs"
      using split_not_Nil [of d cs] by (cases "split d cs") auto
    with Cons False show ?thesis by auto
  qed
qed

lemma split_single: "d \<notin> set x \<Longrightarrow> split d x = [x]"
  by (induction x) auto

lemma split_append: "split d (a @ d # b) = split d a @ split d b"
proof (induction a)
  case Nil
  show ?case by simp
next
  case (Cons c a)
  obtain q qs where "split d a = q # qs"
    using split_not_Nil [of d a] by (cases "split d a") auto
  with Cons show ?case by simp
qed

lemma split_join:
  "xs \<noteq> [] \<Longrightarrow> \<forall>x \<in> set xs. d \<notin> set x \<Longrightarrow> split d (join [d] xs) = xs"
proof (induction "[d]" xs rule: join.induct)
  case 1
  then show ?case by simp
next
  case (2 x)
  then show ?case by (simp add: split_single)
next
  case (3 x y ys)
  then show ?case by (simp add: split_append split_single)
qed

text \<open>A stripped string starts with no whitespace, so stripping again changes nothing.\<close>

lemma dropWhile_strip: "dropWhile isspace (strip s) = strip s"
proof -
  let ?x = "dropWhile isspace s"
  have "\<exists>zs. ?x = strip s @ zs"
    unfolding strip_def
    by (metis append_take_drop_id rev_append rev_rev_ident takeWhile_dropWhile_id)
  then obtain zs where zs: "?x = strip s @ zs" ..
  show ?thesis
  proof (cases "strip s")
    case Nil
    then show ?thesis by simp
  next
    case (Cons a as)
    with zs have "hd ?x = a" "?x \<noteq> []" by auto
    then have "\<not> isspace a" using hd_dropWhile [of isspace s] by auto
    with Cons show ?thesis by simp
  qed
qed

lemma strip_idem: "strip (strip s) = strip s"
proof -
  have "strip (strip s) = rev (dropWhile isspace (rev (strip s)))"
    by (simp add: strip_def [of "strip s"] dropWhile_strip)
  also have "\<dots> = strip s"
    by (simp add: strip_def)
  finally show ?thesis .
qed

lemma set_strip: "set (strip s) \<subseteq> set s"
proof -
  have "set (strip s) \<subseteq> set (dropWhile isspace s)"
    unfolding strip_def using set_dropWhileD by fastforce
  also have "\<dots> \<subseteq> set s" using set_dropWhileD by fastforce
  finally show ?thesis .
qed

lemma normalize_tags_props:
  "t \<in> set (normalize_tags s) \<Longrightarrow> strip t = t \<and> t \<noteq> [] \<and> CHR '','' \<notin> set t"
  using split_no_delim set_strip by (fastforce simp: normalize_tags_def strip_idem)

lemma normalize_fixed:
  "\<forall>t \<in> set ts. strip t = t \<and> t \<noteq> [] \<Longrightarrow> map strip (filter (\<lambda>tag. strip tag \<noteq> []) ts) = ts"
  by (induction ts) auto

lemma normalize_join: "normalize_tags (join '','' (normalize_tags s)) = normalize_tags s"
proof (cases "normalize_tags s = []")
  case True
  then show ?thesis by (simp add: normalize_tags_def strip_def)
next
  case False
  have "split CHR '','' (join '','' (normalize_tags s)) = normalize_tags s"
    using False normalize_tags_props by (intro split_join) auto
  then have "normalize_tags (join '','' (normalize_tags s))
      = map strip (filter (\<lambda>tag. strip tag \<noteq> []) (normalize_tags s))"
    by (simp add: normalize_tags_def [of "join '','' (normalize_tags s)"])
  also have "\<dots> = normalize_tags s"
    using normalize_tags_props by (intro normalize_fixed) auto
  finally show ?thesis .
qed

lemma normalize_tags_append:
  "normalize_tags (a @ '','' @ b) = normalize_tags a @ normalize_tags b"
  by (simp add: normalize_tags_def split_append)

text \<open>
  Claim C7. Normalising the tags line (split on commas, strip each piece, drop the
  empty ones) gives \<^verbatim>\<open>["a","b","c"]\<close> on \<^verbatim>\<open>"a, b ,, c"\<close>, and for every line,
  joining the normalised tags with commas and normalising the result gives the same
  list again.
\<close>

theorem tag_normalization_idempotent:
  "normalize_tags ''a, b ,, c'' = [''a'', ''b'', ''c''] \<and>
   normalize_tags (join '','' (normalize_tags line)) = normalize_tags line"
  by (simp add: normalize_join) (simp add: normalize_tags_def strip_def isspace_def)

theorem tag_normalization_idempotent_witness:
  "normalize_tags (join '','' (normalize_tags ''x ,y,'')) = normalize_tags ''x ,y,''"
  using tag_normalization_idempotent [of "''x ,y,''"] by simp

text \<open>
  Claim C8 fails as it is written: on the line \<^verbatim>\<open>"a, a, b"\<close> the note carries
  the tag \<^verbatim>\<open>a\<close> twice.
\<close>

theorem note_tags_keep_duplicates:
  "py_item (make_note ''AI_Adder'' ''ubiquitous'' (JStr ''<p>Def</p>'') (normalize_tags ''a, a, b''))
     ''tags'' = Inr (JArr [JStr ''a'', JStr ''a'', JStr ''b'']) \<and>
   \<not> distinct (normalize_tags ''a, a, b'')"
  by (simp add: make_note_def normalize_tags_def strip_def isspace_def)

section \<open>The generator\<close>

lemma py_item_Inr: "py_item v k = Inr x \<longleftrightarrow> member k v = Some x"
  by (cases v) (auto split: option.splits)

lemma py_get_Inr: "py_get v k = Inr x \<longleftrightarrow> (\<exists>kvs. v = JObj kvs \<and> x = (case map_of kvs k of None \<Rightarrow> JNull | Some y \<Rightarrow> y))"
  by (cases v) auto

lemma py_first_Inr:
  "py_first v = Inr x \<longleftrightarrow> first_element v = Some x \<or> (\<exists>c cs. v = JStr (c # cs) \<and> x = JStr [c])"
proof (cases v)
  case (JStr s)
  then show ?thesis by (cases s) auto
next
  case (JArr xs)
  then show ?thesis by (cases xs) auto
qed auto

lemma content_html_iff: "content_html result = Inr v \<longleftrightarrow> first_part_text result = Some v"
proof
  assume "content_html result = Inr v"
  then obtain c c0 ct ps p0 where "py_item result ''candidates'' = Inr c" "py_first c = Inr c0"
    "py_item c0 ''content'' = Inr ct" "py_item ct ''parts'' = Inr ps" "py_first ps = Inr p0"
    "py_item p0 ''text'' = Inr v"
    unfolding content_html_def exn_bind_Inr by blast
  then show "first_part_text result = Some v"
    by (auto simp: first_part_text_def first_part_def py_item_Inr py_first_Inr)
next
  assume "first_part_text result = Some v"
  then obtain c c0 ct ps p0 where "member ''candidates'' result = Some c" "first_element c = Some c0"
    "member ''content'' c0 = Some ct" "member ''parts'' ct = Some ps" "first_element ps = Some p0"
    "member ''text'' p0 = Some v"
    by (auto simp: first_part_text_def first_part_def bind_eq_Some_conv)
  then have "py_item result ''candidates'' = Inr c" "py_first c = Inr c0"
    "py_item c0 ''content'' = Inr ct" "py_item ct ''parts'' = Inr ps" "py_first ps = Inr p0"
    "py_item p0 ''text'' = Inr v"
    by (simp_all add: py_item_Inr py_first_Inr)
  then show "content_html result = Inr v"
    by (simp add: content_html_def)
qed

lemma member_truthy: "member k v = Some x \<Longrightarrow> truthy v"
  by (cases v) auto

lemma first_element_truthy: "first_element v = Some x \<Longrightarrow> truthy v \<and> (\<exists>n. py_len v = Inr (Suc n)) \<and> py_first v = Inr x"
  by (cases v rule: first_element.cases) auto

lemma has_text_content_first_part:
  assumes "first_part result = Some p"
  shows "has_text_content result = Inr True"
proof -
  from assms obtain c c0 ct ps where
    c: "member ''candidates'' result = Some c" and c0: "first_element c = Some c0" and
    ct: "member ''content'' c0 = Some ct" and ps: "member ''parts'' ct = Some ps" and
    p: "first_element ps = Some p"
    by (auto simp: first_part_def bind_eq_Some_conv)
  from c have 1: "py_get result ''candidates'' = Inr c" "py_item result ''candidates'' = Inr c"
    by (cases result; simp)+
  from ct have 2: "py_get c0 ''content'' = Inr ct" "py_item c0 ''content'' = Inr ct"
    by (cases c0; simp)+
  from ps have 3: "py_get ct ''parts'' = Inr ps" "py_item ct ''parts'' = Inr ps"
    by (cases ct; simp)+
  from first_element_truthy [OF c0] obtain n where 4: "truthy c" "py_len c = Inr (Suc n)" "py_first c = Inr c0"
    by auto
  from first_element_truthy [OF p] obtain m where 5: "truthy ps" "py_len ps = Inr (Suc m)" "py_first ps = Inr p"
    by auto
  from ps have 6: "truthy ct" by (rule member_truthy)
  show ?thesis
    by (simp add: has_text_content_def 1 2 3 4 5 6)
qed


text \<open>
  Claim C2. For every key and concept, when the call to the generator returns
  status 200 and the body parses to a value in which
  \<^verbatim>\<open>candidates[0].content.parts[0].text\<close> exists, \<^verbatim>\<open>generate_flashcard_content\<close>
  returns exactly that value.
\<close>

theorem generate_passthrough:
  assumes "urlopen E (gemini_url api_key) (payload concept) = Response 200 reason (Some body)"
    and "json_loads E body = Some result"
    and "first_part_text result = Some text"
  shows "fst (generate_flashcard_content E api_key concept w) = Inr text"
proof -
  from assms(3) obtain p where "first_part result = Some p"
    by (auto simp: first_part_text_def bind_eq_Some_conv)
  then have "has_text_content result = Inr True"
    by (rule has_text_content_first_part)
  moreover from assms(3) have "content_html result = Inr text"
    by (simp add: content_html_iff)
  ultimately show ?thesis
    using assms(1,2) by (simp add: generate_flashcard_content_def generate_try_def)
qed

lemma exn_bind_Inl: "exn_bind m f = Inl e \<longleftrightarrow> m = Inl e \<or> (\<exists>x. m = Inr x \<and> f x = Inl e)"
  by (cases m) auto

lemma raises_only_bind:
  "raises_only P m \<Longrightarrow> (\<And>x. raises_only P (f x)) \<Longrightarrow> raises_only P (exn_bind m f)"
  by (cases m) (auto simp: raises_only_def)

lemma raises_only_Inr: "raises_only P (Inr x)"
  by (simp add: raises_only_def)

lemma raises_only_if:
  "raises_only P a \<Longrightarrow> raises_only P b \<Longrightarrow> raises_only P (if c then a else b)"
  by simp

lemma raises_only_ops:
  "raises_only lookup_error (py_get v k)"
  "raises_only lookup_error (py_item v k)"
  "raises_only lookup_error (py_first v)"
  "raises_only lookup_error (py_len v)"
  by (cases v rule: py_first.cases; simp add: raises_only_def lookup_error_def split: option.splits)+

lemma content_html_raises: "raises_only lookup_error (content_html r)"
  unfolding content_html_def by (intro raises_only_bind raises_only_ops)

lemma has_text_content_raises: "raises_only lookup_error (has_text_content r)"
  unfolding has_text_content_def
  by (intro raises_only_bind raises_only_if raises_only_ops raises_only_Inr)

lemma content_html_Inl: "content_html r = Inl e \<Longrightarrow> lookup_error e"
  using content_html_raises [of r] by (simp add: raises_only_def)

lemma has_text_content_Inl: "has_text_content r = Inl e \<Longrightarrow> lookup_error e"
  using has_text_content_raises [of r] by (simp add: raises_only_def)

lemma lookup_error_HTTPError [simp]: "\<not> lookup_error (HTTPError code reason body)"
  by (simp add: lookup_error_def)

lemma generate_try_cases:
  "(\<exists>e. fst (generate_try E k c w) = Inl e \<and>
        ((\<exists>code reason. e = HTTPError code reason None) \<longrightarrow> urlopen E (gemini_url k) (payload c) = Raises e))
   \<or> fst (generate_try E k c w) = Inr JNull
   \<or> (\<exists>reason body result v. urlopen E (gemini_url k) (payload c) = Response 200 reason (Some body) \<and>
         json_loads E body = Some result \<and> first_part_text result = Some v \<and>
         fst (generate_try E k c w) = Inr v)"
  by (auto simp: generate_try_def Let_def content_html_iff
           dest: content_html_Inl has_text_content_Inl
           split: http_outcome.splits option.splits sum.splits bool.splits)

lemma generate_result_cases:
  "(fst (generate_flashcard_content E k c w) = Inl UnicodeDecodeError \<and>
      (\<exists>code reason. urlopen E (gemini_url k) (payload c) = Raises (HTTPError code reason None)))
   \<or> fst (generate_flashcard_content E k c w) = Inr JNull
   \<or> (\<exists>reason body result v. urlopen E (gemini_url k) (payload c) = Response 200 reason (Some body) \<and>
         json_loads E body = Some result \<and> first_part_text result = Some v \<and>
         fst (generate_flashcard_content E k c w) = Inr v)"
proof -
  let ?w = "py_print [Txt (''\<newline>Generating definition and example for '' @ [CHR 0x27]), Txt c,
                        Txt ([CHR 0x27] @ '' using Gemini...'')] w"
  obtain r w' where r: "generate_try E k c ?w = (r, w')" by (cases "generate_try E k c ?w")
  from generate_try_cases [of E k c ?w] r show ?thesis
    by (auto simp: generate_flashcard_content_def split: py_exn.splits option.splits)
qed


theorem generate_passthrough_witness:
  \<open>urlopen (service def_and_example note_added) (gemini_url ''KEY'') (payload ''ubiquitous'')
     = Response 200 ''OK'' (Some ''{"candidates": [{"content": {"parts": [{"text": "<p>Def</p><i>Example</i>"}]}}]}'') \<and>
   fst (generate_flashcard_content (service def_and_example note_added) ''KEY'' ''ubiquitous''
          \<lparr>stdin = [], out = []\<rparr>) = Inr (JStr ''<p>Def</p><i>Example</i>'')\<close>
proof -
  let ?E = "service def_and_example note_added"
  let ?r = "JObj [(''candidates'', JArr [JObj [(''content'',
            JObj [(''parts'', JArr [JObj [(''text'', JStr ''<p>Def</p><i>Example</i>'')]])])]])]"
  have 1: \<open>urlopen ?E (gemini_url ''KEY'') (payload ''ubiquitous'')
     = Response 200 ''OK'' (Some ''{"candidates": [{"content": {"parts": [{"text": "<p>Def</p><i>Example</i>"}]}}]}'')\<close>
    by (simp add: service_def def_and_example_def gemini_url_def anki_url_def)
  have 2: \<open>json_loads ?E ''{"candidates": [{"content": {"parts": [{"text": "<p>Def</p><i>Example</i>"}]}}]}'' = Some ?r\<close>
    by (simp add: service_def parse_def)
  have 3: "first_part_text ?r = Some (JStr ''<p>Def</p><i>Example</i>'')"
    by (simp add: first_part_text_def first_part_def)
  from generate_passthrough [OF 1 2 3] 1 show ?thesis by simp
qed

section \<open>What a run adds to the trace\<close>

lemma out_fold_print:
  "out (fold (\<lambda>name. py_print (f name)) names w) = out w @ map (\<lambda>name. Print (f name)) names"
  by (induction names arbitrary: w) auto

lemma stdin_fold_print: "stdin (fold (\<lambda>name. py_print (f name)) names w) = stdin w"
  by (induction names arbitrary: w) auto

lemma anki_request_eq:
  "anki_request E action params w =
     (case anki_try E action params of
        Inr v \<Rightarrow> (Inr v, w\<lparr>out := out w @ [HttpPost anki_url [] (envelope action params)]\<rparr>)
      | Inl e \<Rightarrow> (Inr JNull, w\<lparr>out := out w @
          [HttpPost anki_url [] (envelope action params),
           Print [Txt ''Error communicating with AnkiConnect: '', Err e],
           Print [Txt ''Please ensure Anki is running and the AnkiConnect add-on is installed and configured correctly.'']]\<rparr>))"
  by (simp add: anki_request_def py_print_def split: sum.splits)

lemma quiet_simps [simp]:
  "quiet (Prompt p)"
  "action \<noteq> ''addNote'' \<Longrightarrow> quiet (HttpPost url hs (envelope action params))"
  "quiet (HttpPost url hs (payload c))"
  "s \<noteq> ''\<newline>Successfully added card to '' @ [CHR 0x27] \<Longrightarrow> quiet (Print (Txt s # fs))"
  by (simp_all add: quiet_def envelope_def payload_def)


lemma grows_refl [simp]: "grows w w"
  by (simp add: grows_def)

lemma grows_trans: "grows w w' \<Longrightarrow> grows w' w'' \<Longrightarrow> grows w w''"
  by (auto simp: grows_def)

lemma grows_print: "quiet (Print fs) \<Longrightarrow> grows w (py_print fs w)"
  by (simp add: grows_def)

lemma grows_input: "grows w (snd (py_input p w))"
  by (simp add: grows_def py_input_def split: list.splits)

lemma grows_fold: "(\<And>name. quiet (Print (f name))) \<Longrightarrow> grows w (fold (\<lambda>name. py_print (f name)) names w)"
  by (simp add: grows_def out_fold_print list_all_iff)

lemma grows_anki_request:
  "action \<noteq> ''addNote'' \<Longrightarrow> grows w (snd (anki_request E action params w))"
  by (simp add: grows_def anki_request_eq split: sum.splits)

lemma grows_choose_deck: "grows w (snd (choose_deck w))"
  by (auto simp: grows_def choose_deck_def py_input_def split: list.splits)

lemma grows_confirm_deck: "grows w (snd (confirm_deck E d ds w))"
proof -
  let ?p = "[Txt (''Deck '' @ [CHR 0x27]), Txt d, Txt ([CHR 0x27] @ '' does not exist. Create it? (y/n): '')]"
  let ?w1 = "snd (py_input ?p w)"
  let ?w2 = "snd (anki_request E ''createDeck'' [(''deck'', JStr d)] ?w1)"
  have 1: "grows w ?w1" by (rule grows_input)
  have 2: "grows w ?w2" by (rule grows_trans [OF 1 grows_anki_request]) simp
  have 3: "grows w (py_print fs ?w2)" if "quiet (Print fs)" for fs
    by (rule grows_trans [OF 2 grows_print]) (rule that)
  have 4: "grows w (py_print fs ?w1)" if "quiet (Print fs)" for fs
    by (rule grows_trans [OF 1 grows_print]) (rule that)
  show ?thesis
    using 1 2 3 4
    by (auto simp: confirm_deck_def split_def split: sum.splits bool.splits)
qed


lemma grows_handle_decks: "grows w (snd (handle_decks E w))"
proof -
  let ?w1 = "snd (anki_request E ''deckNames'' [] w)"
  let ?w1' = "py_print [Txt ''\<newline>Available Decks:''] ?w1"
  have 1: "grows w ?w1" by (rule grows_anki_request) simp
  have 2: "grows w ?w1'" by (rule grows_trans [OF 1 grows_print]) simp
  have 3: "grows w (fold (\<lambda>name. py_print [Txt ''- '', Val name]) names ?w1')" (is "grows w (?w1'' names)") for names
    by (rule grows_trans [OF 2 grows_fold]) simp
  have 4: "grows w (snd (choose_deck (?w1'' names)))" (is "grows w (?w2 names)") for names
    by (rule grows_trans [OF 3 grows_choose_deck])
  have 5: "grows w (snd (confirm_deck E d ds (?w2 names)))" for names d ds
    by (rule grows_trans [OF 4 grows_confirm_deck])
  show ?thesis
    using 1 2 4 5
    by (auto simp: handle_decks_def split_def split: sum.splits option.splits)
qed

lemma grows_generate: "grows w (snd (generate_flashcard_content E k c w))"
  by (auto simp: grows_def generate_flashcard_content_def generate_try_def Let_def
      split: sum.splits http_outcome.splits option.splits bool.splits py_exn.splits)

lemma grows_get_key: "grows w (snd (get_gemini_api_key E w))"
  by (auto simp: grows_def get_gemini_api_key_def Let_def)

section \<open>Declining the creation of a deck\<close>

lemma lower_y: "lower ''y'' = ''y''" "lower ''Y'' = ''y''"
  by (simp_all add: lower_def lower_char_def)

lemma fst_anki_request:
  "fst (anki_request E action params w) = (case anki_try E action params of Inr v \<Rightarrow> Inr v | Inl e \<Rightarrow> Inr JNull)"
  by (simp add: anki_request_eq split: sum.splits)

lemma stdin_anki_request [simp]: "stdin (snd (anki_request E action params w)) = stdin w"
  by (simp add: anki_request_eq split: sum.splits)

lemma py_in_iter: "py_in x v = Inr b \<Longrightarrow> \<exists>names. py_iter v = Inr names"
  by (cases v) auto

lemma choose_deck_stdin:
  "stdin w = ''y'' # rest \<Longrightarrow> fst (choose_deck w) = Inr (Some ''AI_Adder'') \<and> stdin (snd (choose_deck w)) = rest"
  "a1 \<noteq> ''y'' \<Longrightarrow> stdin w = a1 # ''n'' # d # rest \<Longrightarrow>
     fst (choose_deck w) = Inr (Some d) \<and> stdin (snd (choose_deck w)) = rest"
  by (simp_all add: choose_deck_def py_input_def)

lemma confirm_deck_aborts:
  assumes "py_in deck_name deck_names = Inr False" "stdin w = answer # rest"
    and "lower answer \<noteq> ''y'' \<or> fst (anki_request E ''createDeck'' [(''deck'', JStr deck_name)] w') = Inr JNull"
  shows "fst (confirm_deck E deck_name deck_names w) = Inr None"
  using assms
  by (auto simp: confirm_deck_def py_input_def split_def fst_anki_request split: sum.splits)

lemma handle_decks_aborts:
  assumes decks: "fst (anki_request E ''deckNames'' [] w') = Inr deck_names" "deck_names \<noteq> JNull"
    and absent: "py_in deck_name deck_names = Inr False"
    and chosen: "stdin w = ''y'' # answer # rest \<and> deck_name = ''AI_Adder'' \<or>
                 (\<exists>a1. a1 \<noteq> ''y'' \<and> stdin w = a1 # ''n'' # deck_name # answer # rest)"
    and declined: "lower answer \<noteq> ''y'' \<or> fst (anki_request E ''createDeck'' [(''deck'', JStr deck_name)] w'') = Inr JNull"
  shows "fst (handle_decks E w) = Inr None"
proof -
  from absent obtain names where names: "py_iter deck_names = Inr names"
    using py_in_iter by blast
  let ?w1 = "snd (anki_request E ''deckNames'' [] w)"
  let ?w2 = "fold (\<lambda>name. py_print [Txt ''- '', Val name]) names (py_print [Txt ''\<newline>Available Decks:''] ?w1)"
  have r: "fst (anki_request E ''deckNames'' [] w) = Inr deck_names"
    using decks(1) by (simp add: fst_anki_request)
  have s: "stdin ?w2 = stdin w" by (simp add: stdin_fold_print)
  from chosen s have c: "fst (choose_deck ?w2) = Inr (Some deck_name)"
      "stdin (snd (choose_deck ?w2)) = answer # rest"
    using choose_deck_stdin [where w = ?w2] by auto
  have "fst (confirm_deck E deck_name deck_names (snd (choose_deck ?w2))) = Inr None"
    using absent c(2) declined by (rule confirm_deck_aborts)
  with r decks(2) names c(1) show ?thesis
    by (simp add: handle_decks_def split_def)
qed

text \<open>
  Claim C5, as the script has it. In a run where the key is set, the store lists
  decks, the chosen deck is not among them, and the answer to the creation prompt
  does not lower to \<^verbatim>\<open>y\<close>, or \<^verbatim>\<open>createDeck\<close> gives no result,
  \<^verbatim>\<open>create_flashcard\<close> returns and the trace holds no \<^verbatim>\<open>addNote\<close> request.
\<close>

theorem declined_or_failed_creation_issues_no_addNote:
  assumes key: "environ E ''GEMINI_API_KEY'' = Some key" "key \<noteq> []"
    and decks: "fst (anki_request E ''deckNames'' [] w') = Inr deck_names" "deck_names \<noteq> JNull"
    and absent: "py_in deck_name deck_names = Inr False"
    and chosen: "stdin w = ''y'' # answer # rest \<and> deck_name = ''AI_Adder'' \<or>
                 (\<exists>a1. a1 \<noteq> ''y'' \<and> stdin w = a1 # ''n'' # deck_name # answer # rest)"
    and declined: "lower answer \<noteq> ''y'' \<or>
                   fst (anki_request E ''createDeck'' [(''deck'', JStr deck_name)] w'') = Inr JNull"
    and start: "\<not> list_ex is_addNote (out w)"
  shows "fst (create_flashcard E w) = Returned \<and>
         \<not> list_ex is_addNote (out (snd (create_flashcard E w)))"
proof -
  let ?w0 = "py_print [Txt ''--- AI-Powered Anki Flashcard Adder ---''] w"
  have k: "get_gemini_api_key E ?w0 = (Some key, ?w0)"
    using key by (simp add: get_gemini_api_key_def)
  have "stdin ?w0 = stdin w" by simp
  with chosen have chosen': "stdin ?w0 = ''y'' # answer # rest \<and> deck_name = ''AI_Adder'' \<or>
                 (\<exists>a1. a1 \<noteq> ''y'' \<and> stdin ?w0 = a1 # ''n'' # deck_name # answer # rest)"
    by simp
  have h: "fst (handle_decks E ?w0) = Inr None"
    using decks absent chosen' declined by (rule handle_decks_aborts)
  have run: "create_flashcard E w = (Returned, snd (handle_decks E ?w0))"
    using k key(2) h by (simp add: create_flashcard_def split_def)
  have "grows w ?w0" by (rule grows_print) simp
  then have "grows w (snd (handle_decks E ?w0))"
    using grows_handle_decks by (rule grows_trans)
  then obtain evs where "out (snd (handle_decks E ?w0)) = out w @ evs" "list_all quiet evs"
    by (auto simp: grows_def)
  with start run show ?thesis
    by (auto simp: list_ex_iff list_all_iff quiet_def)
qed


section \<open>Submitting the note\<close>

lemma error_reply_anki_try:
  "error_reply E anki_url (envelope action params) \<Longrightarrow> \<exists>err. anki_try E action params = Inl (Exception err)"
  by (auto simp: error_reply_def anki_try_def split: http_outcome.splits option.splits json.splits)

lemma grows_append: "grows w w' \<Longrightarrow> \<exists>evs. out w' = out w @ evs \<and> list_all quiet evs"
  by (simp add: grows_def)

lemma add_card_cases:
  "(\<exists>evs. out (snd (add_card E k d w)) = out w @ evs \<and> list_all quiet evs) \<or>
   (\<exists>evs c html tags tail. list_all quiet evs \<and>
      out (snd (add_card E k d w)) =
        out w @ evs @ HttpPost anki_url [] (envelope ''addNote'' [(''note'', make_note d c html tags)]) # tail \<and>
      \<not> list_ex is_addNote tail \<and>
      (if error_reply E anki_url (envelope ''addNote'' [(''note'', make_note d c html tags)])
       then \<exists>e. tail = [Print [Txt ''Error communicating with AnkiConnect: '', Err e],
               Print [Txt ''Please ensure Anki is running and the AnkiConnect add-on is installed and configured correctly.''],
               failure_line]
       else True))"
proof -
  let ?p1 = "[Txt ''\<newline>Enter the word or concept for the flashcard: '']"
  let ?p2 = "[Txt ''Enter tags for the card (comma-separated, optional): '']"
  let ?w1 = "snd (py_input ?p1 w)"
  have 1: "grows w ?w1" by (rule grows_input)
  show ?thesis
  proof (cases "fst (py_input ?p1 w)")
    case (Inl e)
    then have "snd (add_card E k d w) = ?w1" by (simp add: add_card_def split_def)
    with 1 show ?thesis by (auto dest: grows_append)
  next
    case (Inr concept)
    let ?g = "generate_flashcard_content E k concept ?w1"
    let ?w2 = "snd ?g"
    have 2: "grows w ?w2" by (rule grows_trans [OF 1 grows_generate])
    show ?thesis
    proof (cases "fst ?g")
      case (Inl e)
      with Inr have "snd (add_card E k d w) = ?w2" by (simp add: add_card_def split_def)
      with 2 show ?thesis by (auto dest: grows_append)
    next
      case html: (Inr html)
      show ?thesis
      proof (cases "truthy html")
        case False
        with Inr html have "snd (add_card E k d w) =
            py_print [Txt ''Could not generate card content. Please try again.''] ?w2"
          by (simp add: add_card_def split_def)
        moreover have "grows w (py_print [Txt ''Could not generate card content. Please try again.''] ?w2)"
          by (rule grows_trans [OF 2 grows_print]) simp
        ultimately show ?thesis by (auto dest: grows_append)
      next
        case True
        let ?w3 = "snd (py_input ?p2 ?w2)"
        have 3: "grows w ?w3" by (rule grows_trans [OF 2 grows_input])
        show ?thesis
        proof (cases "fst (py_input ?p2 ?w2)")
          case (Inl e)
          with Inr html True have "snd (add_card E k d w) = ?w3"
            by (simp add: add_card_def split_def)
          with 3 show ?thesis by (auto dest: grows_append)
        next
          case line: (Inr line)
          let ?note = "make_note d concept html (normalize_tags line)"
          from 3 obtain evs where evs: "out ?w3 = out w @ evs" "list_all quiet evs"
            by (auto dest: grows_append)
          have "\<exists>tail. out (snd (add_card E k d w)) =
                 out w @ evs @ HttpPost anki_url [] (envelope ''addNote'' [(''note'', ?note)]) # tail \<and>
                \<not> list_ex is_addNote tail \<and>
                (if error_reply E anki_url (envelope ''addNote'' [(''note'', ?note)])
                 then \<exists>e. tail = [Print [Txt ''Error communicating with AnkiConnect: '', Err e],
                   Print [Txt ''Please ensure Anki is running and the AnkiConnect add-on is installed and configured correctly.''],
                   failure_line]
                 else True)"
            using Inr html True line evs(1)
            by (auto simp: add_card_def split_def anki_request_eq failure_line_def Let_def
                  dest!: error_reply_anki_try split: sum.splits)
          with evs(2) show ?thesis by blast
        qed
      qed
    qed
  qed
qed


lemma create_flashcard_cases:
  assumes "out w = []"
  shows "list_all quiet (out (snd (create_flashcard E w))) \<or>
   (\<exists>evs d c html tags tail. list_all quiet evs \<and>
      out (snd (create_flashcard E w)) =
        evs @ HttpPost anki_url [] (envelope ''addNote'' [(''note'', make_note d c html tags)]) # tail \<and>
      \<not> list_ex is_addNote tail \<and>
      (if error_reply E anki_url (envelope ''addNote'' [(''note'', make_note d c html tags)])
       then \<exists>e. tail = [Print [Txt ''Error communicating with AnkiConnect: '', Err e],
               Print [Txt ''Please ensure Anki is running and the AnkiConnect add-on is installed and configured correctly.''],
               failure_line]
       else True))"
proof -
  let ?w0 = "py_print [Txt ''--- AI-Powered Anki Flashcard Adder ---''] w"
  let ?w1 = "snd (get_gemini_api_key E ?w0)"
  let ?w2 = "snd (handle_decks E ?w1)"
  have 0: "grows w ?w0" by (rule grows_print) simp
  have 1: "grows w ?w1" by (rule grows_trans [OF 0 grows_get_key])
  have 2: "grows w ?w2" by (rule grows_trans [OF 1 grows_handle_decks])
  have 3: "grows w (py_print [Txt ''An error occurred while handling decks: '', Err e] ?w2)" for e
    by (rule grows_trans [OF 2 grows_print]) simp
  have q: "list_all quiet (out w')" if "grows w w'" for w'
    using that assms by (auto simp: grows_def)
  let ?key = "fst (get_gemini_api_key E ?w0)"
  have "snd (create_flashcard E w) \<in> {?w1, ?w2} \<union> range (\<lambda>e. py_print [Txt ''An error occurred while handling decks: '', Err e] ?w2)
      \<or> (\<exists>k d. snd (create_flashcard E w) = snd (add_card E k d ?w2))"
  proof (cases "?key = None \<or> ?key = Some []")
    case True
    then have "snd (create_flashcard E w) = ?w1"
      by (simp add: create_flashcard_def split_def)
    then show ?thesis by simp
  next
    case False
    then have cf: "create_flashcard E w =
        (case fst (handle_decks E ?w1) of
           Inl e \<Rightarrow> (Returned, py_print [Txt ''An error occurred while handling decks: '', Err e] ?w2)
         | Inr None \<Rightarrow> (Returned, ?w2)
         | Inr (Some deck_name) \<Rightarrow> add_card E (the ?key) deck_name ?w2)"
      by (auto simp: create_flashcard_def split_def split: sum.splits option.splits)
    show ?thesis
    proof (cases "fst (handle_decks E ?w1)")
      case (Inl e)
      with cf show ?thesis by simp
    next
      case (Inr r)
      with cf show ?thesis by (cases r) auto
    qed
  qed
  then consider (quiet) "snd (create_flashcard E w) \<in> {?w1, ?w2} \<union> range (\<lambda>e. py_print [Txt ''An error occurred while handling decks: '', Err e] ?w2)"
    | (card) k d where "snd (create_flashcard E w) = snd (add_card E k d ?w2)"
    by blast
  then show ?thesis
  proof cases
    case quiet
    with 1 2 3 have "grows w (snd (create_flashcard E w))" by auto
    then show ?thesis by (simp add: q)
  next
    case card
    from 2 assms obtain evs0 where evs0: "out ?w2 = evs0" "list_all quiet evs0"
      by (auto simp: grows_def)
    from add_card_cases [of E k d ?w2] show ?thesis
    proof (elim disjE exE conjE)
      fix evs assume "out (snd (add_card E k d ?w2)) = out ?w2 @ evs" "list_all quiet evs"
      with evs0 card have "list_all quiet (out (snd (create_flashcard E w)))" by simp
      then show ?thesis ..
    next
      fix evs c html tags tail
      assume a: "list_all quiet evs"
        "out (snd (add_card E k d ?w2)) =
           out ?w2 @ evs @ HttpPost anki_url [] (envelope ''addNote'' [(''note'', make_note d c html tags)]) # tail"
        "\<not> list_ex is_addNote tail"
        "if error_reply E anki_url (envelope ''addNote'' [(''note'', make_note d c html tags)])
         then \<exists>e. tail = [Print [Txt ''Error communicating with AnkiConnect: '', Err e],
               Print [Txt ''Please ensure Anki is running and the AnkiConnect add-on is installed and configured correctly.''],
               failure_line]
         else True"
      from a(1) evs0 have "list_all quiet (evs0 @ evs)" by simp
      moreover from a(2) evs0 card have "out (snd (create_flashcard E w)) =
          (evs0 @ evs) @ HttpPost anki_url [] (envelope ''addNote'' [(''note'', make_note d c html tags)]) # tail"
        by simp
      ultimately show ?thesis using a(3,4) by blast
    qed
  qed
qed

text \<open>
  Claim C6. In every run from an empty trace, each \<^verbatim>\<open>addNote\<close> request carries a
  note whose options are \<^verbatim>\<open>allowDuplicate\<close> false and \<^verbatim>\<open>duplicateScope\<close>
  \<^verbatim>\<open>deck\<close>. When the store answers the \<^verbatim>\<open>addNote\<close> request with a non-empty
  error field, as it does for a duplicate, the success report is never printed, and
  the last line printed after the request is the failure report.
\<close>

theorem duplicate_note_is_reported_as_failure:
  assumes "out w = []"
  shows "(\<forall>ev \<in> set (out (snd (create_flashcard E w))). is_addNote ev \<longrightarrow>
            note_options ev = Inr (JObj [(''allowDuplicate'', JBool False), (''duplicateScope'', JStr ''deck'')])) \<and>
         ((\<forall>ev \<in> set (out (snd (create_flashcard E w))). is_addNote ev \<longrightarrow> rejected E ev) \<longrightarrow>
            \<not> list_ex is_success (out (snd (create_flashcard E w))) \<and>
            (list_ex is_addNote (out (snd (create_flashcard E w))) \<longrightarrow>
               last (out (snd (create_flashcard E w))) = failure_line))"
  using create_flashcard_cases [OF assms, of E]
proof (elim disjE exE conjE)
  assume "list_all quiet (out (snd (create_flashcard E w)))"
  then show ?thesis by (auto simp: list_all_iff list_ex_iff quiet_def)
next
  fix evs d c html tags tail
  let ?post = "HttpPost anki_url [] (envelope ''addNote'' [(''note'', make_note d c html tags)])"
  assume a: "list_all quiet evs" "out (snd (create_flashcard E w)) = evs @ ?post # tail"
    "\<not> list_ex is_addNote tail"
    "if error_reply E anki_url (envelope ''addNote'' [(''note'', make_note d c html tags)])
         then \<exists>e. tail = [Print [Txt ''Error communicating with AnkiConnect: '', Err e],
               Print [Txt ''Please ensure Anki is running and the AnkiConnect add-on is installed and configured correctly.''],
               failure_line]
         else True"
  have post: "is_addNote ?post" "\<not> is_success ?post"
    "note_options ?post = Inr (JObj [(''allowDuplicate'', JBool False), (''duplicateScope'', JStr ''deck'')])"
    by (simp_all add: envelope_def note_options_def make_note_def)
  have A: "\<forall>ev \<in> set (out (snd (create_flashcard E w))). is_addNote ev \<longrightarrow>
            note_options ev = Inr (JObj [(''allowDuplicate'', JBool False), (''duplicateScope'', JStr ''deck'')])"
    using a(1,3) post by (auto simp: a(2) list_all_iff list_ex_iff quiet_def)
  have B: "\<not> list_ex is_success (out (snd (create_flashcard E w))) \<and>
           last (out (snd (create_flashcard E w))) = failure_line"
    if "\<forall>ev \<in> set (out (snd (create_flashcard E w))). is_addNote ev \<longrightarrow> rejected E ev"
  proof -
    from that post(1) have "error_reply E anki_url (envelope ''addNote'' [(''note'', make_note d c html tags)])"
      by (auto simp: a(2))
    with a(4) obtain e where "tail = [Print [Txt ''Error communicating with AnkiConnect: '', Err e],
               Print [Txt ''Please ensure Anki is running and the AnkiConnect add-on is installed and configured correctly.''],
               failure_line]" by auto
    with a(1) post(2) show ?thesis
      by (auto simp: a(2) list_all_iff list_ex_iff quiet_def failure_line_def)
  qed
  from A B show ?thesis by blast
qed


section \<open>Runs on the concrete store\<close>

lemmas run_defs = create_flashcard_def get_gemini_api_key_def handle_decks_def confirm_deck_def
  choose_deck_def add_card_def anki_request_def anki_try_def generate_flashcard_content_def
  generate_try_def py_input_def py_print_def envelope_def anki_url_def gemini_url_def service_def
  parse_def note_added_def def_and_example_def duplicate_rejected_def has_text_content_def
  content_html_def normalize_tags_def strip_def isspace_def make_note_def payload_def lower_y

text \<open>
  The claim as it is written fails: the answer is lowered before it is compared,
  so \<^verbatim>\<open>Y\<close>, which is not \<^verbatim>\<open>y\<close>, creates the deck and the run goes on to
  \<^verbatim>\<open>addNote\<close>.
\<close>

theorem uppercase_answer_creates_deck_and_adds_note:
  "py_in ''AI_Adder'' (JArr [JStr ''Default'']) = Inr False \<and> ''Y'' \<noteq> ''y'' \<and>
   list_ex is_addNote
     (out (snd (create_flashcard (service def_and_example note_added)
                  \<lparr>stdin = [''y'', ''Y'', ''ubiquitous'', ''vocab, gre''], out = []\<rparr>)))"
  by (simp add: run_defs)

theorem declined_or_failed_creation_issues_no_addNote_witness:
  "lower ''n'' \<noteq> ''y'' \<and>
   fst (create_flashcard (service def_and_example note_added)
          \<lparr>stdin = [''y'', ''n'', ''ubiquitous'', ''vocab, gre''], out = []\<rparr>) = Returned \<and>
   \<not> list_ex is_addNote
     (out (snd (create_flashcard (service def_and_example note_added)
                  \<lparr>stdin = [''y'', ''n'', ''ubiquitous'', ''vocab, gre''], out = []\<rparr>)))"
proof -
  let ?E = "service def_and_example note_added"
  let ?w = "\<lparr>stdin = [''y'', ''n'', ''ubiquitous'', ''vocab, gre''], out = []\<rparr>"
  have 1: "environ ?E ''GEMINI_API_KEY'' = Some ''KEY''" "''KEY'' \<noteq> []"
    by (simp_all add: service_def)
  have 2: "fst (anki_request ?E ''deckNames'' [] ?w) = Inr (JArr [JStr ''Default''])"
    "JArr [JStr ''Default''] \<noteq> JNull"
    by (simp_all add: anki_request_def anki_try_def service_def envelope_def anki_url_def parse_def)
  have 3: "py_in ''AI_Adder'' (JArr [JStr ''Default'']) = Inr False" by simp
  have 4: "stdin ?w = ''y'' # ''n'' # [''ubiquitous'', ''vocab, gre''] \<and> ''AI_Adder'' = ''AI_Adder'' \<or>
      (\<exists>a1. a1 \<noteq> ''y'' \<and> stdin ?w = a1 # ''n'' # ''AI_Adder'' # ''n'' # [''ubiquitous'', ''vocab, gre''])"
    by simp
  have 5: "lower ''n'' \<noteq> ''y''" by (simp add: lower_def lower_char_def)
  then have 6: "lower ''n'' \<noteq> ''y'' \<or>
      fst (anki_request ?E ''createDeck'' [(''deck'', JStr ''AI_Adder'')] ?w) = Inr JNull" ..
  have 7: "\<not> list_ex is_addNote (out ?w)" by simp
  from declined_or_failed_creation_issues_no_addNote [OF 1 2 3 4 6 7] 5 show ?thesis by simp
qed

theorem duplicate_note_is_reported_as_failure_witness:
  "list_ex is_addNote (out (snd (create_flashcard (service def_and_example duplicate_rejected)
       \<lparr>stdin = [''y'', ''y'', ''ubiquitous'', ''vocab, gre''], out = []\<rparr>))) \<and>
   list_all (\<lambda>ev. \<not> is_addNote ev \<or> rejected (service def_and_example duplicate_rejected) ev)
     (out (snd (create_flashcard (service def_and_example duplicate_rejected)
       \<lparr>stdin = [''y'', ''y'', ''ubiquitous'', ''vocab, gre''], out = []\<rparr>))) \<and>
   last (out (snd (create_flashcard (service def_and_example duplicate_rejected)
       \<lparr>stdin = [''y'', ''y'', ''ubiquitous'', ''vocab, gre''], out = []\<rparr>))) = failure_line"
proof -
  let ?E = "service def_and_example duplicate_rejected"
  let ?w = "\<lparr>stdin = [''y'', ''y'', ''ubiquitous'', ''vocab, gre''], out = []\<rparr>"
  let ?out = "out (snd (create_flashcard ?E ?w))"
  have 1: "list_ex is_addNote ?out" by (simp add: run_defs)
  have 2: "list_all (\<lambda>ev. \<not> is_addNote ev \<or> rejected ?E ev) ?out"
    by (simp add: run_defs error_reply_def)
  have "out ?w = []" by simp
  from duplicate_note_is_reported_as_failure [OF this, of ?E] 1 2 show ?thesis
    by (auto simp: list_all_iff)
qed


text \<open>
  Claim C1, as the script has it. The end-to-end scenario: the key is set, the
  store lists the deck \<^verbatim>\<open>Default\<close>, the user takes the favourite deck and accepts
  its creation, \<^verbatim>\<open>createDeck\<close> succeeds, the concept is \<^verbatim>\<open>ubiquitous\<close>, the
  generator returns \<^verbatim>\<open><p>Def</p><i>Example</i>\<close> and the tags line is
  \<^verbatim>\<open>vocab, gre\<close>. The whole run is determined: the note sent with \<^verbatim>\<open>addNote\<close>
  has the deck \<^verbatim>\<open>AI_Adder\<close>, the model \<^verbatim>\<open>Basic\<close>, the concept as front, the
  generated text as back, the options \<^verbatim>\<open>allowDuplicate\<close> false and
  \<^verbatim>\<open>duplicateScope\<close> \<^verbatim>\<open>deck\<close>, and the tags \<^verbatim>\<open>vocab\<close> and \<^verbatim>\<open>gre\<close>; on
  success the four lines of the confirmation show the deck, the front, the back and
  the tags.
\<close>

theorem end_to_end_scenario:
  "create_flashcard (service def_and_example note_added)
     \<lparr>stdin = [''y'', ''y'', ''ubiquitous'', ''vocab, gre''], out = []\<rparr> =
   (Returned,
    \<lparr>stdin = [],
     out =
      [Print [Txt ''--- AI-Powered Anki Flashcard Adder ---''],
       HttpPost ''http://localhost:8765'' []
         (JObj [(''action'', JStr ''deckNames''), (''version'', JNum 6), (''params'', JObj [])]),
       Print [Txt ''\<newline>Available Decks:''],
       Print [Txt ''- '', Val (JStr ''Default'')],
       Prompt [Txt ''\<newline>AI_Adder?''],
       Prompt [Txt (''Deck '' @ [CHR 0x27]), Txt ''AI_Adder'',
               Txt ([CHR 0x27] @ '' does not exist. Create it? (y/n): '')],
       HttpPost ''http://localhost:8765'' []
         (JObj [(''action'', JStr ''createDeck''), (''version'', JNum 6),
                (''params'', JObj [(''deck'', JStr ''AI_Adder'')])]),
       Print [Txt (''Deck '' @ [CHR 0x27]), Txt ''AI_Adder'', Txt ([CHR 0x27] @ '' created successfully.'')],
       Prompt [Txt ''\<newline>Enter the word or concept for the flashcard: ''],
       Print [Txt (''\<newline>Generating definition and example for '' @ [CHR 0x27]), Txt ''ubiquitous'',
              Txt ([CHR 0x27] @ '' using Gemini...'')],
       HttpPost (gemini_url ''KEY'') [(''Content-Type'', ''application/json'')] (payload ''ubiquitous''),
       Prompt [Txt ''Enter tags for the card (comma-separated, optional): ''],
       HttpPost ''http://localhost:8765'' []
         (JObj [(''action'', JStr ''addNote''), (''version'', JNum 6),
                (''params'', JObj [(''note'',
                   JObj [(''deckName'', JStr ''AI_Adder''),
                         (''modelName'', JStr ''Basic''),
                         (''fields'', JObj [(''Front'', JStr ''ubiquitous''),
                                            (''Back'', JStr ''<p>Def</p><i>Example</i>'')]),
                         (''options'', JObj [(''allowDuplicate'', JBool False),
                                             (''duplicateScope'', JStr ''deck'')]),
                         (''tags'', JArr [JStr ''vocab'', JStr ''gre''])])])]),
       Print [Txt (''\<newline>Successfully added card to '' @ [CHR 0x27]), Txt ''AI_Adder'', Txt ([CHR 0x27] @ ''!'')],
       Print [Txt ''  Front: '', Txt ''ubiquitous''],
       Print [Txt ''  Back Content (HTML): \<newline>'', Val (JStr ''<p>Def</p><i>Example</i>'')],
       Print [Txt ''  Tags: '', Txt ''vocab, gre'']]\<rparr>)"
  by (simp add: run_defs)

text \<open>
  The claim as it is written fails: the note of the scenario is not the object with
  the four members \<^verbatim>\<open>deckName\<close>, \<^verbatim>\<open>modelName\<close>, \<^verbatim>\<open>fields\<close> and \<^verbatim>\<open>tags\<close>
  alone, since it has the member \<^verbatim>\<open>options\<close> as well.
\<close>

theorem scenario_note_has_options:
  "notes_sent
     (out (snd (create_flashcard (service def_and_example note_added)
                  \<lparr>stdin = [''y'', ''y'', ''ubiquitous'', ''vocab, gre''], out = []\<rparr>))) \<noteq>
   [Inr (JObj [(''deckName'', JStr ''AI_Adder''),
               (''modelName'', JStr ''Basic''),
               (''fields'', JObj [(''Front'', JStr ''ubiquitous''),
                                  (''Back'', JStr ''<p>Def</p><i>Example</i>'')]),
               (''tags'', JArr [JStr ''vocab'', JStr ''gre''])])]"
  by (simp add: run_defs notes_sent_def)

text \<open>
  The failures of the generator that do end in \<^verbatim>\<open>None\<close>: no key, an exception of
  \<^verbatim>\<open>urlopen\<close> other than an \<open>HTTPError\<close> with an undecodable body, a status
  other than 200, a body that is not JSON, and a parsed body without the path
  \<^verbatim>\<open>candidates[0].content.parts[0]\<close>.
\<close>

lemma generator_failures_yield_None:
  "(environ E ''GEMINI_API_KEY'' = None \<or> environ E ''GEMINI_API_KEY'' = Some [] \<longrightarrow>
      fst (get_gemini_api_key E w) = None) \<and>
   (urlopen E (gemini_url k) (payload c) = Raises e \<and> (\<forall>code reason. e \<noteq> HTTPError code reason None) \<longrightarrow>
      fst (generate_flashcard_content E k c w) = Inr JNull) \<and>
   (urlopen E (gemini_url k) (payload c) = Response status reason body \<and> status \<noteq> 200 \<longrightarrow>
      fst (generate_flashcard_content E k c w) = Inr JNull) \<and>
   (urlopen E (gemini_url k) (payload c) = Response 200 reason (Some text) \<and> json_loads E text = None \<longrightarrow>
      fst (generate_flashcard_content E k c w) = Inr JNull) \<and>
   (urlopen E (gemini_url k) (payload c) = Response 200 reason (Some text) \<and>
    json_loads E text = Some result \<and> first_part result = None \<longrightarrow>
      fst (generate_flashcard_content E k c w) = Inr JNull)"
proof -
  have 1: "fst (get_gemini_api_key E w) = None"
    if "environ E ''GEMINI_API_KEY'' = None \<or> environ E ''GEMINI_API_KEY'' = Some []"
    using that by (auto simp: get_gemini_api_key_def)
  have 2: "fst (generate_flashcard_content E k c w) = Inr JNull"
    if "urlopen E (gemini_url k) (payload c) = Raises e" "\<forall>code reason. e \<noteq> HTTPError code reason None"
    using that generate_result_cases [of E k c w] by auto
  have 3: "fst (generate_flashcard_content E k c w) = Inr JNull"
    if "urlopen E (gemini_url k) (payload c) = Response status reason body" "status \<noteq> 200"
    using that generate_result_cases [of E k c w] by auto
  have 4: "fst (generate_flashcard_content E k c w) = Inr JNull"
    if "urlopen E (gemini_url k) (payload c) = Response 200 reason (Some text)" "json_loads E text = None"
    using that generate_result_cases [of E k c w] by auto
  have 5: "fst (generate_flashcard_content E k c w) = Inr JNull"
    if "urlopen E (gemini_url k) (payload c) = Response 200 reason (Some text)"
      "json_loads E text = Some result" "first_part result = None"
    using that generate_result_cases [of E k c w] by (auto simp: first_part_text_def)
  from 1 2 3 4 5 show ?thesis by blast
qed

text \<open>
  Claim C3 at an input where the script breaks it. The generator answers with HTTP
  status 500 and a body that is not UTF-8: \<^verbatim>\<open>urlopen\<close> raises \<open>HTTPError\<close>, the
  handler decodes the body before it prints, and \<open>UnicodeDecodeError\<close> leaves
  \<^verbatim>\<open>generate_flashcard_content\<close> and then \<^verbatim>\<open>create_flashcard\<close>, where the claim
  has the generator return \<^verbatim>\<open>None\<close>.
\<close>

theorem undecodable_error_body_propagates:
  "fst (generate_flashcard_content
          (service (Raises (HTTPError 500 ''Internal Server Error'' None)) note_added)
          ''KEY'' ''ubiquitous'' \<lparr>stdin = [], out = []\<rparr>) = Inl UnicodeDecodeError \<and>
   fst (create_flashcard
          (service (Raises (HTTPError 500 ''Internal Server Error'' None)) note_added)
          \<lparr>stdin = [''y'', ''y'', ''ubiquitous'', ''vocab, gre''], out = []\<rparr>)
     = Propagated UnicodeDecodeError"
  by (simp add: run_defs)

text \<open>
  Claim C9. With two answers on the input, \<^verbatim>\<open>deck_name\<close> is left unbound exactly
  when the first is not \<^verbatim>\<open>y\<close> and the second is not \<^verbatim>\<open>n\<close>; so answers other
  than \<^verbatim>\<open>y\<close> and \<^verbatim>\<open>n\<close> to the prompts leave it unbound, and the membership
  test then raises \<open>UnboundLocalError\<close>. After the answer \<^verbatim>\<open>n\<close> to the first
  prompt the same prompt is shown a second time, and only a second \<^verbatim>\<open>n\<close> leads
  to the prompt for the name of the deck, whose answer becomes the deck.
\<close>

theorem favourite_deck_prompts:
  "(stdin w = a1 # a2 # rest \<longrightarrow>
      (fst (choose_deck w) = Inr None \<longleftrightarrow> a1 \<noteq> ''y'' \<and> a2 \<noteq> ''n'')) \<and>
   (stdin w = a1 # a2 # rest \<and> a1 \<notin> {''y'', ''n''} \<and> a2 \<notin> {''y'', ''n''} \<and>
    fst (anki_request E ''deckNames'' [] w) = Inr deck_names \<and> py_iter deck_names = Inr names \<longrightarrow>
      fst (handle_decks E w) = Inl UnboundLocalError) \<and>
   (stdin w = ''n'' # a2 # rest \<longrightarrow>
      out (snd (choose_deck w)) =
        out w @ [Prompt [Txt ''\<newline>AI_Adder?''], Prompt [Txt ''\<newline>AI_Adder?'']] @
        (if a2 = ''n'' then [Prompt [Txt ''\<newline>Enter the name of the deck to add the card to: '']] else [])) \<and>
   (stdin w = ''n'' # ''n'' # d # rest \<longrightarrow> fst (choose_deck w) = Inr (Some d))"
proof -
  have 1: "fst (choose_deck w) = Inr None \<longleftrightarrow> a1 \<noteq> ''y'' \<and> a2 \<noteq> ''n''" if "stdin w = a1 # a2 # rest"
    using that by (auto simp: choose_deck_def py_input_def split: list.splits)
  have 2: "fst (handle_decks E w) = Inl UnboundLocalError"
    if s: "stdin w = a1 # a2 # rest" and a: "a1 \<notin> {''y'', ''n''}" "a2 \<notin> {''y'', ''n''}"
      and d: "fst (anki_request E ''deckNames'' [] w) = Inr deck_names" "py_iter deck_names = Inr names"
  proof -
    let ?w2 = "fold (\<lambda>name. py_print [Txt ''- '', Val name]) names
                 (py_print [Txt ''\<newline>Available Decks:''] (snd (anki_request E ''deckNames'' [] w)))"
    have "stdin ?w2 = a1 # a2 # rest" using s by (simp add: stdin_fold_print)
    with a have "fst (choose_deck ?w2) = Inr None"
      by (auto simp: choose_deck_def py_input_def)
    moreover from d(2) have "deck_names \<noteq> JNull" by auto
    ultimately show ?thesis using d by (simp add: handle_decks_def split_def)
  qed
  have 3: "out (snd (choose_deck w)) =
        out w @ [Prompt [Txt ''\<newline>AI_Adder?''], Prompt [Txt ''\<newline>AI_Adder?'']] @
        (if a2 = ''n'' then [Prompt [Txt ''\<newline>Enter the name of the deck to add the card to: '']] else [])"
    if "stdin w = ''n'' # a2 # rest"
    using that by (auto simp: choose_deck_def py_input_def split: list.splits)
  have 4: "fst (choose_deck w) = Inr (Some d)" if "stdin w = ''n'' # ''n'' # d # rest"
    using that by (simp add: choose_deck_def py_input_def)
  from 1 2 3 4 show ?thesis by blast
qed

theorem favourite_deck_prompts_witness:
  "fst (choose_deck \<lparr>stdin = [''maybe'', ''ok''], out = []\<rparr>) = Inr None \<and>
   fst (handle_decks (service def_and_example note_added) \<lparr>stdin = [''maybe'', ''ok''], out = []\<rparr>)
     = Inl UnboundLocalError \<and>
   out (snd (choose_deck \<lparr>stdin = [''n'', ''n'', ''Default''], out = []\<rparr>)) =
     [Prompt [Txt ''\<newline>AI_Adder?''], Prompt [Txt ''\<newline>AI_Adder?''],
      Prompt [Txt ''\<newline>Enter the name of the deck to add the card to: '']] \<and>
   fst (choose_deck \<lparr>stdin = [''n'', ''n'', ''Default''], out = []\<rparr>) = Inr (Some ''Default'')"
proof -
  let ?E = "service def_and_example note_added"
  let ?w = "\<lparr>stdin = [''maybe'', ''ok''], out = []\<rparr>"
  let ?v = "\<lparr>stdin = [''n'', ''n'', ''Default''], out = []\<rparr>"
  have d: "fst (anki_request ?E ''deckNames'' [] ?w) = Inr (JArr [JStr ''Default''])"
    by (simp add: anki_request_def anki_try_def service_def envelope_def anki_url_def parse_def)
  have i: "py_iter (JArr [JStr ''Default'']) = Inr [JStr ''Default'']" by simp
  from favourite_deck_prompts [where w = ?w and ?a1.0 = "''maybe''" and ?a2.0 = "''ok''" and rest = "[]"
      and E = ?E and deck_names = "JArr [JStr ''Default'']" and names = "[JStr ''Default'']"] d i
  have "fst (choose_deck ?w) = Inr None"
    "fst (handle_decks ?E ?w) = Inl UnboundLocalError"
    by simp_all
  moreover
  from favourite_deck_prompts [where w = ?v and ?a2.0 = "''n''" and rest = "[''Default'']"]
  have "out (snd (choose_deck ?v)) =
     [Prompt [Txt ''\<newline>AI_Adder?''], Prompt [Txt ''\<newline>AI_Adder?''],
      Prompt [Txt ''\<newline>Enter the name of the deck to add the card to: '']]"
    by simp
  moreover
  from favourite_deck_prompts [where w = ?v and d = "''Default''" and rest = "[]"]
  have "fst (choose_deck ?v) = Inr (Some ''Default'')"
    by simp
  ultimately show ?thesis by simp
qed

section \<open>The two helpers at their call boundary\<close>




section \<open>The helpers on a console that can refuse a line\<close>

text \<open>On a console that accepts every line they are the helpers of the script above.\<close>

lemma print_on_accepting: "print_on (\<lambda>fs. True) fs w = (Inr (), py_print fs w)"
  by (simp add: print_on_def)

lemma generate_try_on_accepting:
  "generate_try_on (\<lambda>fs. True) E k c w = generate_try E k c w"
  by (simp add: generate_try_on_def generate_try_def print_on_accepting Let_def
      split: http_outcome.splits option.splits sum.splits bool.splits)

lemma generate_flashcard_content_on_accepting:
  "generate_flashcard_content_on (\<lambda>fs. True) E k c w = generate_flashcard_content E k c w"
  by (simp add: generate_flashcard_content_on_def generate_flashcard_content_def
        print_on_accepting generate_try_on_accepting
      split: prod.splits sum.splits py_exn.splits option.splits)

lemma anki_request_on_accepting:
  "anki_request_on (\<lambda>fs. True) E action params w = anki_request E action params w"
  by (simp add: anki_request_on_def anki_request_def print_on_accepting Let_def split: sum.splits)

lemma anki_request_on_eq:
  "anki_request_on accepts E action params w =
     (case anki_try E action params of
        Inr v \<Rightarrow> (Inr v, w\<lparr>out := out w @ [HttpPost anki_url [] (envelope action params)]\<rparr>)
      | Inl e \<Rightarrow>
          if \<not> accepts [Txt ''Error communicating with AnkiConnect: '', Err e] then
            (Inl UnicodeEncodeError, w\<lparr>out := out w @ [HttpPost anki_url [] (envelope action params)]\<rparr>)
          else if \<not> accepts [Txt ''Please ensure Anki is running and the AnkiConnect add-on is installed and configured correctly.''] then
            (Inl UnicodeEncodeError,
             w\<lparr>out := out w @
               [HttpPost anki_url [] (envelope action params),
                Print [Txt ''Error communicating with AnkiConnect: '', Err e]]\<rparr>)
          else
            (Inr JNull,
             w\<lparr>out := out w @
               [HttpPost anki_url [] (envelope action params),
                Print [Txt ''Error communicating with AnkiConnect: '', Err e],
                Print [Txt ''Please ensure Anki is running and the AnkiConnect add-on is installed and configured correctly.'']]\<rparr>))"
  by (simp add: anki_request_on_def print_on_def py_print_def Let_def split: sum.splits)

text \<open>
  What \<^verbatim>\<open>anki_request\<close> does on any console: one request to the fixed endpoint;
  on a response with a non-empty \<^verbatim>\<open>error\<close> field, the exception raised with it is
  caught, and the result is \<^verbatim>\<open>None\<close> after two printed lines unless the console
  refuses one of them, in which case \<open>UnicodeEncodeError\<close> leaves the function; on a
  response without one, the result is its \<^verbatim>\<open>result\<close> field.
\<close>

lemma anki_request_on_contract:
  "filter is_post (out (snd (anki_request_on accepts E action params w))) =
     filter is_post (out w) @
     [HttpPost ''http://localhost:8765'' []
        (JObj [(''action'', JStr action), (''version'', JNum 6), (''params'', JObj params)])] \<and>
   (urlopen E anki_url (envelope action params) = Response status reason (Some body) \<and>
    json_loads E body = Some (JObj kvs) \<and> map_of kvs ''error'' = Some err \<and> truthy err \<longrightarrow>
      anki_try E action params = Inl (Exception err) \<and>
      anki_request_on accepts E action params w =
        (if \<not> accepts [Txt ''Error communicating with AnkiConnect: '', Err (Exception err)] then
           (Inl UnicodeEncodeError, w\<lparr>out := out w @ [HttpPost anki_url [] (envelope action params)]\<rparr>)
         else if \<not> accepts [Txt ''Please ensure Anki is running and the AnkiConnect add-on is installed and configured correctly.''] then
           (Inl UnicodeEncodeError,
            w\<lparr>out := out w @
              [HttpPost anki_url [] (envelope action params),
               Print [Txt ''Error communicating with AnkiConnect: '', Err (Exception err)]]\<rparr>)
         else
           (Inr JNull,
            w\<lparr>out := out w @
              [HttpPost anki_url [] (envelope action params),
               Print [Txt ''Error communicating with AnkiConnect: '', Err (Exception err)],
               Print [Txt ''Please ensure Anki is running and the AnkiConnect add-on is installed and configured correctly.'']]\<rparr>))) \<and>
   (urlopen E anki_url (envelope action params) = Response status reason (Some body) \<and>
    json_loads E body = Some (JObj kvs) \<and>
    \<not> truthy (case map_of kvs ''error'' of None \<Rightarrow> JNull | Some e \<Rightarrow> e) \<longrightarrow>
      anki_request_on accepts E action params w =
        (Inr (case map_of kvs ''result'' of None \<Rightarrow> JNull | Some r \<Rightarrow> r),
         w\<lparr>out := out w @ [HttpPost anki_url [] (envelope action params)]\<rparr>))"
proof -
  have 1: "filter is_post (out (snd (anki_request_on accepts E action params w))) =
     filter is_post (out w) @
     [HttpPost ''http://localhost:8765'' []
        (JObj [(''action'', JStr action), (''version'', JNum 6), (''params'', JObj params)])]"
    by (simp add: anki_request_on_eq anki_url_def envelope_def split: sum.splits)
  have 2: "anki_try E action params = Inl (Exception err)"
    if "urlopen E anki_url (envelope action params) = Response status reason (Some body)"
      "json_loads E body = Some (JObj kvs)" "map_of kvs ''error'' = Some err" "truthy err"
    using that by (simp add: anki_try_def)
  have 3: "anki_try E action params = Inr (case map_of kvs ''result'' of None \<Rightarrow> JNull | Some r \<Rightarrow> r)"
    if "urlopen E anki_url (envelope action params) = Response status reason (Some body)"
      "json_loads E body = Some (JObj kvs)"
      "\<not> truthy (case map_of kvs ''error'' of None \<Rightarrow> JNull | Some e \<Rightarrow> e)"
    using that by (simp add: anki_try_def)
  from 1 2 3 show ?thesis by (simp add: anki_request_on_eq)
qed

text \<open>
  Claim C4 at an input where the script breaks it. The console has the ASCII
  encoding and the store answers with the error message \<^verbatim>\<open>caf\<close> followed by the
  code point 233. The exception raised with the message is caught, the handler's
  first \<^verbatim>\<open>print\<close> is refused, and \<open>UnicodeEncodeError\<close> leaves
  \<^verbatim>\<open>anki_request\<close> with nothing printed, where the claim has it print a message
  and return \<^verbatim>\<open>None\<close>.
\<close>

theorem unprintable_error_leaves_anki_request:
  "anki_try accented_error ''addNote'' [] = Inl (Exception (JStr (''caf'' @ [CHR 0xE9]))) \<and>
   \<not> ascii_console [Txt ''Error communicating with AnkiConnect: '',
                      Err (Exception (JStr (''caf'' @ [CHR 0xE9])))] \<and>
   anki_request_on ascii_console accented_error ''addNote'' [] \<lparr>stdin = [], out = []\<rparr> =
     (Inl UnicodeEncodeError,
      \<lparr>stdin = [], out = [HttpPost anki_url [] (envelope ''addNote'' [])]\<rparr>)"
  by (simp add: anki_request_on_eq anki_try_def accented_error_def ascii_console_def ascii_def
        envelope_def anki_url_def)




section \<open>The tags of the note that is sent\<close>

lemma join_split: "join [d] (split d s) = s"
proof (induction s)
  case Nil
  show ?case by simp
next
  case (Cons c s)
  obtain q qs where q: "split d s = q # qs"
    using split_not_Nil [of d s] by (cases "split d s") auto
  with Cons show ?case by (cases qs) auto
qed

lemma normalize_tags_join:
  assumes "pieces \<noteq> []" "\<forall>p \<in> set pieces. CHR '','' \<notin> set p"
  shows "normalize_tags (join '','' pieces) = map strip (filter (\<lambda>p. strip p \<noteq> []) pieces)"
  using split_join [OF assms] by (simp add: normalize_tags_def)

lemma fst_generate_try: "fst (generate_try E k c w) = fst (generate_try E k c w')"
  by (simp add: generate_try_def Let_def
      split: http_outcome.splits option.splits sum.splits bool.splits)

lemma fst_generate: "fst (generate_flashcard_content E k c w) = fst (generate_flashcard_content E k c w')"
proof -
  let ?line = "[Txt (''\<newline>Generating definition and example for '' @ [CHR 0x27]), Txt c,
                Txt ([CHR 0x27] @ '' using Gemini...'')]"
  let ?F = "\<lambda>r. case r of
         Inr v \<Rightarrow> Inr v
       | Inl (HTTPError code reason body) \<Rightarrow>
           (case body of None \<Rightarrow> Inl UnicodeDecodeError | Some error_body \<Rightarrow> Inr JNull)
       | Inl e \<Rightarrow> Inr JNull"
  have "fst (generate_flashcard_content E k c w) = ?F (fst (generate_try E k c (py_print ?line w)))" for w
    by (cases "generate_try E k c (py_print ?line w)")
       (simp add: generate_flashcard_content_def split: sum.splits py_exn.splits option.splits)
  then show ?thesis
    using fst_generate_try [of E k c "py_print ?line w" "py_print ?line w'"] by simp
qed

lemma notes_sent_quiet: "list_all quiet evs \<Longrightarrow> notes_sent evs = []"
  by (induction evs) (auto simp: notes_sent_def quiet_def)

lemma notes_sent_append: "notes_sent (xs @ ys) = notes_sent xs @ notes_sent ys"
  by (simp add: notes_sent_def)

lemma add_card_note:
  assumes "stdin w = concept # line # rest"
    and "fst (generate_flashcard_content E key concept w') = Inr html" "truthy html"
  shows "notes_sent (out (snd (add_card E key deck_name w))) =
           notes_sent (out w) @ [Inr (make_note deck_name concept html (normalize_tags line))]"
proof -
  let ?p1 = "[Txt ''\<newline>Enter the word or concept for the flashcard: '']"
  let ?p2 = "[Txt ''Enter tags for the card (comma-separated, optional): '']"
  let ?w1 = "snd (py_input ?p1 w)"
  let ?g = "generate_flashcard_content E key concept ?w1"
  let ?w2 = "snd ?g"
  let ?w3 = "snd (py_input ?p2 ?w2)"
  let ?note = "make_note deck_name concept html (normalize_tags line)"
  have i1: "fst (py_input ?p1 w) = Inr concept" "stdin ?w1 = line # rest"
    using assms(1) by (simp_all add: py_input_def)
  have g: "fst ?g = Inr html" using assms(2) fst_generate [of E key concept ?w1 w'] by simp
  have "stdin ?w2 = stdin ?w1"
    by (simp add: generate_flashcard_content_def generate_try_def Let_def
        split: http_outcome.splits option.splits sum.splits bool.splits py_exn.splits)
  with i1(2) have i2: "fst (py_input ?p2 ?w2) = Inr line"
    by (simp add: py_input_def)
  have "grows w ?w3"
    by (rule grows_trans [OF grows_trans [OF grows_input grows_generate] grows_input])
  then obtain evs where evs: "out ?w3 = out w @ evs" "list_all quiet evs"
    by (auto simp: grows_def)
  have post: "is_addNote (HttpPost anki_url [] (envelope ''addNote'' [(''note'', ?note)]))"
    by (simp add: envelope_def)
  have "\<exists>tail. out (snd (add_card E key deck_name w)) =
          (out w @ evs) @ HttpPost anki_url [] (envelope ''addNote'' [(''note'', ?note)]) # tail \<and>
          list_all (\<lambda>ev. \<not> is_addNote ev) tail"
    using i1(1) g assms(3) i2 evs(1)
    by (auto simp: add_card_def split_def anki_request_eq Let_def split: sum.splits)
  then obtain tail where t: "out (snd (add_card E key deck_name w)) =
          (out w @ evs) @ HttpPost anki_url [] (envelope ''addNote'' [(''note'', ?note)]) # tail"
      "list_all (\<lambda>ev. \<not> is_addNote ev) tail" by blast
  from t(2) have "filter is_addNote tail = []" by (induction tail) auto
  then have "notes_sent tail = []" by (simp add: notes_sent_def)
  with t(1) evs(2) show ?thesis
    by (simp add: notes_sent_append notes_sent_quiet)
       (simp add: notes_sent_def envelope_def)
qed

text \<open>
  Claim C8, as the script has it. Every line is its pieces between the commas joined
  by commas, and no piece holds a comma. For pieces without a comma, the tags of
  their join are the stripped pieces that are not empty, in the order of the line
  and as often as they occur; and when that line is typed at the tags prompt of a
  run that has a generated text, the note sent with \<^verbatim>\<open>addNote\<close> carries exactly
  these tags, and no other note is sent.
\<close>

theorem note_tags_are_trimmed_pieces:
  "split CHR '','' line \<noteq> [] \<and> join '','' (split CHR '','' line) = line \<and>
   (\<forall>p \<in> set (split CHR '','' line). CHR '','' \<notin> set p) \<and>
   (pieces \<noteq> [] \<and> (\<forall>p \<in> set pieces. CHR '','' \<notin> set p) \<longrightarrow>
      normalize_tags (join '','' pieces) = map strip (filter (\<lambda>p. strip p \<noteq> []) pieces) \<and>
      (stdin w = concept # join '','' pieces # rest \<and>
       fst (generate_flashcard_content E key concept w') = Inr html \<and> truthy html \<longrightarrow>
         tags_sent (out (snd (add_card E key deck_name w))) =
           tags_sent (out w) @
           [Inr (JArr (map JStr (map strip (filter (\<lambda>p. strip p \<noteq> []) pieces))))]))"
proof -
  have 1: "split CHR '','' line \<noteq> [] \<and> join '','' (split CHR '','' line) = line"
    by (simp add: join_split split_not_Nil)
  have 2: "\<forall>p \<in> set (split CHR '','' line). CHR '','' \<notin> set p"
    using split_no_delim by blast
  have 3: "normalize_tags (join '','' pieces) = map strip (filter (\<lambda>p. strip p \<noteq> []) pieces)"
    if "pieces \<noteq> []" "\<forall>p \<in> set pieces. CHR '','' \<notin> set p"
    using that by (rule normalize_tags_join)
  have 4: "tags_sent (out (snd (add_card E key deck_name w))) =
           tags_sent (out w) @
           [Inr (JArr (map JStr (map strip (filter (\<lambda>p. strip p \<noteq> []) pieces))))]"
    if "pieces \<noteq> []" "\<forall>p \<in> set pieces. CHR '','' \<notin> set p"
      "stdin w = concept # join '','' pieces # rest"
      "fst (generate_flashcard_content E key concept w') = Inr html" "truthy html"
    using add_card_note [OF that(3,4,5), of deck_name] 3 [OF that(1,2)]
    by (simp add: tags_sent_def make_note_def)
  from 1 2 3 4 show ?thesis by blast
qed

theorem note_tags_are_trimmed_pieces_witness:
  "join '','' [''a'', '' a'', '' '', ''b ''] = ''a, a, ,b '' \<and>
   normalize_tags ''a, a, ,b '' = [''a'', ''a'', ''b''] \<and>
   tags_sent (out (snd (add_card (service def_and_example note_added) ''KEY'' ''AI_Adder''
                          \<lparr>stdin = [''ubiquitous'', ''a, a, ,b ''], out = []\<rparr>))) =
     [Inr (JArr [JStr ''a'', JStr ''a'', JStr ''b''])]"
proof -
  let ?E = "service def_and_example note_added"
  let ?w = "\<lparr>stdin = [''ubiquitous'', ''a, a, ,b ''], out = []\<rparr>"
  let ?pieces = "[''a'', '' a'', '' '', ''b '']"
  have j: "join '','' ?pieces = ''a, a, ,b ''" by simp
  have p: "?pieces \<noteq> [] \<and> (\<forall>p \<in> set ?pieces. CHR '','' \<notin> set p)" by simp
  have s: "map strip (filter (\<lambda>p. strip p \<noteq> []) ?pieces) = [''a'', ''a'', ''b'']"
    by (simp add: strip_def isspace_def)
  have g: "fst (generate_flashcard_content ?E ''KEY'' ''ubiquitous'' ?w) = Inr (JStr ''<p>Def</p><i>Example</i>'')"
    by (simp add: run_defs)
  have r: "stdin ?w = ''ubiquitous'' # join '','' ?pieces # [] \<and>
      fst (generate_flashcard_content ?E ''KEY'' ''ubiquitous'' ?w) = Inr (JStr ''<p>Def</p><i>Example</i>'') \<and>
      truthy (JStr ''<p>Def</p><i>Example</i>'')"
    using g by simp
  from note_tags_are_trimmed_pieces [where pieces = ?pieces and w = ?w and concept = "''ubiquitous''"
      and rest = "[]" and E = ?E and key = "''KEY''" and w' = ?w
      and html = "JStr ''<p>Def</p><i>Example</i>''" and deck_name = "''AI_Adder''"] p r
  have "normalize_tags (join '','' ?pieces) = map strip (filter (\<lambda>p. strip p \<noteq> []) ?pieces)"
    "tags_sent (out (snd (add_card ?E ''KEY'' ''AI_Adder'' ?w))) =
       tags_sent (out ?w) @
       [Inr (JArr (map JStr (map strip (filter (\<lambda>p. strip p \<noteq> []) ?pieces))))]"
    by blast+
  with j s show ?thesis by (simp add: tags_sent_def notes_sent_def)
qed

end
